theory Spec2Isabelle
  imports Complex_Main "HOL-Library.Word"
begin

section \<open>BlueALSA: PCM endpoints, the control channel and the A2DP source I/O threads\<close>

text \<open>
  A shallow embedding of the parts of \<^verbatim>\<open>src/io.c\<close> and \<^verbatim>\<open>src/bluealsa-dbus.c\<close> that
  move PCM samples from a client FIFO into RTP packets on the Bluetooth socket, and of the
  D-Bus methods that hand the FIFO to the client. System calls and the codec libraries are
  the environment: each call's outcome is an input of the model (a script of outcomes, read
  in the order the code makes the calls), so every theorem holds for whatever the kernel
  and the codecs answer.
\<close>

subsection \<open>System-call outcomes\<close>

text \<open>The \<^verbatim>\<open>errno\<close> values the code tests for; \<open>EOTHER\<close> stands for any other value.\<close>

datatype errno = ENONE | EINTR | EAGAIN | EBADF | EPIPE | EBUSY | ECONNRESET | ENOTCONN | EOTHER

text \<open>\<^verbatim>\<open>read(2)\<close>: the number of bytes read (0 at end of file), or -1 with \<^verbatim>\<open>errno\<close> set.\<close>

datatype rd = RdBytes nat | RdFail errno

text \<open>\<^verbatim>\<open>write(2)\<close> as \<^verbatim>\<open>io_thread_write_bt\<close> returns it: the number of bytes written, or -1
  with \<^verbatim>\<open>errno\<close> set (never EINTR or EAGAIN, which that function retries).\<close>

datatype wr = WrBytes nat | WrFail errno

subsection \<open>Transport signals and the PCM endpoint\<close>

text \<open>The signal codes of \<^verbatim>\<open>enum ba_transport_signal\<close> (declared in ba-transport.h, which
  is not among the sources; the names are those the code uses).\<close>

datatype ba_transport_signal =
    TRANSPORT_PING
  | TRANSPORT_PCM_OPEN
  | TRANSPORT_PCM_CLOSE
  | TRANSPORT_PCM_PAUSE
  | TRANSPORT_PCM_RESUME
  | TRANSPORT_PCM_SYNC
  | TRANSPORT_PCM_DROP

datatype ba_transport_state = TRANSPORT_IDLE | TRANSPORT_ACTIVE | TRANSPORT_PAUSED

text \<open>A PCM endpoint as the I/O thread sees it: the FIFO descriptor (\<open>-1\<close> when closed),
  the descriptors the daemon has closed for it, and the signals sent on its behalf.\<close>

record ba_pcm =
  fd :: int
  closed :: "int list"
  signalled :: "ba_transport_signal list"

text \<open>Modelled from the spec: \<^verbatim>\<open>ba_transport_release_pcm\<close> is defined in ba-transport.c,
  which is not among the sources. The spec (4.4): "release_pcm(endpoint): close both
  internal fds; signal PCM_CLOSE". An endpoint that is already closed is left alone.\<close>

definition ba_transport_release_pcm :: "ba_pcm \<Rightarrow> ba_pcm" where
  "ba_transport_release_pcm pcm =
     (if fd pcm = -1 then pcm
      else pcm\<lparr>fd := -1, closed := closed pcm @ [fd pcm],
               signalled := signalled pcm @ [TRANSPORT_PCM_CLOSE]\<rparr>)"

subsection \<open>\<^verbatim>\<open>io_thread_read_pcm\<close> (io.c, lines 76-100)\<close>

text \<open>The retry loop \<^verbatim>\<open>while ((ret = read(...)) == -1 && errno == EINTR) continue;\<close>.
  The script lists what successive \<^verbatim>\<open>read\<close> calls return; the result is the
  value of \<^verbatim>\<open>ret\<close> and of \<^verbatim>\<open>errno\<close> when the loop ends, or \<open>None\<close> when the script ends
  while the loop is still retrying.\<close>

fun read_retry :: "rd list \<Rightarrow> errno \<Rightarrow> (int \<times> errno) option" where
  "read_retry [] e = None"
| "read_retry (RdBytes n # rs) e = Some (int n, e)"
| "read_retry (RdFail x # rs) e = (if x = EINTR then read_retry rs x else Some (-1, x))"

text \<open>The whole function: the returned value, \<^verbatim>\<open>errno\<close> on return, and the endpoint.
  \<^verbatim>\<open>ret / sizeof(int16_t)\<close> is \<open>ret div 2\<close> for the positive \<open>ret\<close> it is applied to.\<close>

definition io_thread_read_pcm :: "rd list \<Rightarrow> errno \<Rightarrow> ba_pcm \<Rightarrow> (int \<times> errno \<times> ba_pcm) option" where
  "io_thread_read_pcm script e0 pcm =
     (case read_retry script e0 of
        None \<Rightarrow> None
      | Some (ret, e) \<Rightarrow>
          if ret > 0 then Some (ret div 2, e, pcm)
          else
            let ret1 = (if e = EBADF then 0 else ret) in
            if ret1 = 0 then Some (ret1, e, ba_transport_release_pcm pcm)
            else Some (ret1, e, pcm))"

subsection \<open>The PCM control channel: \<^verbatim>\<open>bluealsa_pcm_controller\<close> (bluealsa-dbus.c, lines 161-208)\<close>

text \<open>The keywords \<^verbatim>\<open>BLUEALSA_PCM_CTRL_*\<close> are macros of a header that is not among the
  sources; their values are the four keywords the spec lists (section 6).\<close>

definition BLUEALSA_PCM_CTRL_DRAIN :: string where "BLUEALSA_PCM_CTRL_DRAIN = ''Drain''"
definition BLUEALSA_PCM_CTRL_DROP :: string where "BLUEALSA_PCM_CTRL_DROP = ''Drop''"
definition BLUEALSA_PCM_CTRL_PAUSE :: string where "BLUEALSA_PCM_CTRL_PAUSE = ''Pause''"
definition BLUEALSA_PCM_CTRL_RESUME :: string where "BLUEALSA_PCM_CTRL_RESUME = ''Resume''"

text \<open>The byte of a C string at its head; the end of the list is the terminating NUL.\<close>

definition c_head :: "string \<Rightarrow> char" where
  "c_head s = (case s of [] \<Rightarrow> CHR 0x00 | c # _ \<Rightarrow> c)"

text \<open>C's \<^verbatim>\<open>strncmp(s1, s2, n)\<close>: compares at most \<open>n\<close> bytes and stops after a NUL;
  the sign of the result is that of the first differing pair of bytes.\<close>

fun strncmp :: "string \<Rightarrow> string \<Rightarrow> nat \<Rightarrow> int" where
  "strncmp s1 s2 0 = 0"
| "strncmp s1 s2 (Suc n) =
     (if c_head s1 \<noteq> c_head s2 then int (of_char (c_head s1)) - int (of_char (c_head s2))
      else if c_head s1 = CHR 0x00 then 0
      else strncmp (tl s1) (tl s2) n)"

text \<open>What \<^verbatim>\<open>g_io_channel_read_chars\<close> reports: for \<open>G_IO_STATUS_NORMAL\<close> the bytes of
  the packet read into \<^verbatim>\<open>command\<close> (their number is \<^verbatim>\<open>len\<close>).\<close>

datatype g_io_status =
    G_IO_STATUS_ERROR
  | G_IO_STATUS_NORMAL string
  | G_IO_STATUS_AGAIN
  | G_IO_STATUS_EOF

text \<open>What the controller can observe and change: the transport's state, the signals sent
  to the I/O thread, the replies written on the control channel, and the endpoint.
  \<^verbatim>\<open>ba_transport_drain_pcm\<close> is not among the sources; by the spec (4.4) it signals
  \<open>TRANSPORT_PCM_SYNC\<close> and waits for the drained condition, so it is recorded as that signal.\<close>

record ctrl_data =
  t_state :: ba_transport_state
  t_signals :: "ba_transport_signal list"
  replies :: "string list"
  ctl_pcm :: ba_pcm

definition ba_transport_send_signal :: "ba_transport_signal \<Rightarrow> ctrl_data \<Rightarrow> ctrl_data" where
  "ba_transport_send_signal sig c = c\<lparr>t_signals := t_signals c @ [sig]\<rparr>"

definition ba_transport_set_state :: "ba_transport_state \<Rightarrow> ctrl_data \<Rightarrow> ctrl_data" where
  "ba_transport_set_state s c = c\<lparr>t_state := s\<rparr>"

definition ba_transport_drain_pcm :: "ctrl_data \<Rightarrow> ctrl_data" where
  "ba_transport_drain_pcm c = ba_transport_send_signal TRANSPORT_PCM_SYNC c"

definition g_io_channel_write_chars :: "string \<Rightarrow> ctrl_data \<Rightarrow> ctrl_data" where
  "g_io_channel_write_chars s c = c\<lparr>replies := replies c @ [s]\<rparr>"

text \<open>The watch callback. The boolean is its return value: \<open>True\<close> keeps the channel
  watched, \<open>False\<close> removes the watch.\<close>

definition bluealsa_pcm_controller :: "g_io_status \<Rightarrow> ctrl_data \<Rightarrow> bool \<times> ctrl_data" where
  "bluealsa_pcm_controller status c =
     (case status of
        G_IO_STATUS_ERROR \<Rightarrow> (True, c)
      | G_IO_STATUS_NORMAL command \<Rightarrow>
          (let len = length command in
           if strncmp command BLUEALSA_PCM_CTRL_DRAIN len = 0 then
             (True, g_io_channel_write_chars ''OK'' (ba_transport_drain_pcm c))
           else if strncmp command BLUEALSA_PCM_CTRL_DROP len = 0 then
             (True, g_io_channel_write_chars ''OK'' (ba_transport_send_signal TRANSPORT_PCM_DROP c))
           else if strncmp command BLUEALSA_PCM_CTRL_PAUSE len = 0 then
             (True, g_io_channel_write_chars ''OK''
                (ba_transport_send_signal TRANSPORT_PCM_PAUSE
                  (ba_transport_set_state TRANSPORT_PAUSED c)))
           else if strncmp command BLUEALSA_PCM_CTRL_RESUME len = 0 then
             (True, g_io_channel_write_chars ''OK''
                (ba_transport_send_signal TRANSPORT_PCM_RESUME
                  (ba_transport_set_state TRANSPORT_ACTIVE c)))
           else (True, g_io_channel_write_chars ''Invalid'' c))
      | G_IO_STATUS_AGAIN \<Rightarrow> (True, c)
      | G_IO_STATUS_EOF \<Rightarrow>
          (False, ba_transport_send_signal TRANSPORT_PCM_CLOSE
                    (c\<lparr>ctl_pcm := ba_transport_release_pcm (ctl_pcm c)\<rparr>)))"

subsection \<open>Opening a PCM: \<^verbatim>\<open>bluealsa_pcm_open\<close> (bluealsa-dbus.c, lines 210-312)\<close>

text \<open>Modelled from the spec: the profile constants \<^verbatim>\<open>BA_TRANSPORT_PROFILE_*\<close> and the macro
  \<^verbatim>\<open>IS_BA_TRANSPORT_PROFILE_SCO\<close> are declared in ba-transport.h, which is not among the
  sources. The spec (section 3) lists the profiles; a transport has exactly one, so the
  code's bit tests \<^verbatim>\<open>profile & P\<close> are tests for equality.\<close>

datatype ba_transport_profile =
    BA_TRANSPORT_PROFILE_A2DP_SOURCE
  | BA_TRANSPORT_PROFILE_A2DP_SINK
  | BA_TRANSPORT_PROFILE_HFP_HF
  | BA_TRANSPORT_PROFILE_HFP_AG
  | BA_TRANSPORT_PROFILE_HSP_HS
  | BA_TRANSPORT_PROFILE_HSP_AG
  | BA_TRANSPORT_PROFILE_RFCOMM

definition IS_BA_TRANSPORT_PROFILE_SCO :: "ba_transport_profile \<Rightarrow> bool" where
  "IS_BA_TRANSPORT_PROFILE_SCO p \<longleftrightarrow>
     p = BA_TRANSPORT_PROFILE_HFP_HF \<or> p = BA_TRANSPORT_PROFILE_HFP_AG \<or>
     p = BA_TRANSPORT_PROFILE_HSP_HS \<or> p = BA_TRANSPORT_PROFILE_HSP_AG"

text \<open>The HFP codec identifiers of hfp.h (not among the sources): undefined, CVSD, mSBC.\<close>

datatype hfp_codec = HFP_CODEC_UNDEFINED | HFP_CODEC_CVSD | HFP_CODEC_MSBC

definition BLUEALSA_PCM_MODE_SOURCE :: string where "BLUEALSA_PCM_MODE_SOURCE = ''source''"
definition BLUEALSA_PCM_MODE_SINK :: string where "BLUEALSA_PCM_MODE_SINK = ''sink''"

text \<open>The fields of \<^verbatim>\<open>struct ba_transport\<close> that \<^verbatim>\<open>bluealsa_pcm_open\<close> reads or writes: the
  profile and codec, the FIFO descriptor of each of its endpoints, the signals written to
  its signal pipe, and the number of calls of its \<^verbatim>\<open>acquire\<close> handler.\<close>

record ba_transport =
  t_profile :: ba_transport_profile
  t_codec :: hfp_codec
  a2dp_pcm_fd :: int
  sco_spk_pcm_fd :: int
  sco_mic_pcm_fd :: int
  sig_pipe :: "ba_transport_signal list"
  acquire_calls :: nat

text \<open>The endpoint \<^verbatim>\<open>pcm\<close> points to: \<^verbatim>\<open>&t->a2dp.pcm\<close>, \<^verbatim>\<open>&t->sco.spk_pcm\<close> or
  \<^verbatim>\<open>&t->sco.mic_pcm\<close>.\<close>

datatype pcm_ref = A2DP_PCM | SCO_SPK_PCM | SCO_MIC_PCM

definition pcm_fd :: "pcm_ref \<Rightarrow> ba_transport \<Rightarrow> int" where
  "pcm_fd p t = (case p of A2DP_PCM \<Rightarrow> a2dp_pcm_fd t
                 | SCO_SPK_PCM \<Rightarrow> sco_spk_pcm_fd t
                 | SCO_MIC_PCM \<Rightarrow> sco_mic_pcm_fd t)"

definition set_pcm_fd :: "pcm_ref \<Rightarrow> int \<Rightarrow> ba_transport \<Rightarrow> ba_transport" where
  "set_pcm_fd p v t = (case p of A2DP_PCM \<Rightarrow> t\<lparr>a2dp_pcm_fd := v\<rparr>
                       | SCO_SPK_PCM \<Rightarrow> t\<lparr>sco_spk_pcm_fd := v\<rparr>
                       | SCO_MIC_PCM \<Rightarrow> t\<lparr>sco_mic_pcm_fd := v\<rparr>)"

text \<open>The daemon's side of the call: the transport, the descriptors open in the process,
  and the descriptors watched by the main loop as control channels.\<close>

record daemon =
  transport :: ba_transport
  open_fds :: "int set"
  watched :: "int list"

text \<open>What the environment answers during one call: \<^verbatim>\<open>pipe2\<close> and \<^verbatim>\<open>socketpair\<close> give
  two new descriptors or fail, \<^verbatim>\<open>fcntl\<close> and the transport's \<^verbatim>\<open>acquire\<close> handler succeed
  or fail; a failure sets \<^verbatim>\<open>errno\<close>.\<close>

record open_env =
  pipe2_result :: "errno + nat \<times> nat"
  socketpair_result :: "errno + nat \<times> nat"
  fcntl_result :: "errno + unit"
  acquire_result :: "errno + unit"

datatype g_dbus_error = G_DBUS_ERROR_INVALID_ARGS | G_DBUS_ERROR_FAILED | G_DBUS_ERROR_NOT_SUPPORTED

text \<open>The reply of the method: an error with its message, or the two descriptors passed
  to the client (data, control).\<close>

datatype dbus_reply = ReturnError g_dbus_error string | ReturnValue int int

definition is_error :: "dbus_reply \<Rightarrow> bool" where
  "is_error r = (case r of ReturnError _ _ \<Rightarrow> True | ReturnValue _ _ \<Rightarrow> False)"

text \<open>\<^verbatim>\<open>strerror\<close>, with glibc's messages.\<close>

definition strerror :: "errno \<Rightarrow> string" where
  "strerror e = (case e of
      ENONE \<Rightarrow> ''Success''
    | EINTR \<Rightarrow> ''Interrupted system call''
    | EAGAIN \<Rightarrow> ''Resource temporarily unavailable''
    | EBADF \<Rightarrow> ''Bad file descriptor''
    | EPIPE \<Rightarrow> ''Broken pipe''
    | EBUSY \<Rightarrow> ''Device or resource busy''
    | ECONNRESET \<Rightarrow> ''Connection reset by peer''
    | ENOTCONN \<Rightarrow> ''Transport endpoint is not connected''
    | EOTHER \<Rightarrow> ''Unknown error'')"

text \<open>The result of a call: the reply and the local array \<^verbatim>\<open>pcm_fds\<close> as it stands when
  the function returns.\<close>

record open_result =
  reply :: dbus_reply
  pcm_fds :: "int list"

text \<open>The label \<^verbatim>\<open>fail\<close>: close every descriptor of \<^verbatim>\<open>pcm_fds\<close> that is not -1.\<close>

definition open_fail :: "dbus_reply \<Rightarrow> int list \<Rightarrow> daemon \<Rightarrow> open_result \<times> daemon" where
  "open_fail r fds d =
     (\<lparr>reply = r, pcm_fds = fds\<rparr>, d\<lparr>open_fds := open_fds d - {f \<in> set fds. f \<noteq> -1}\<rparr>)"

text \<open>Lines 217-251: the mode is validated and the endpoint chosen; for an SCO transport
  the codec must have been selected. \<open>Inl\<close> is the error reply of a call that ends here.\<close>

definition open_select_pcm :: "string \<Rightarrow> ba_transport \<Rightarrow> dbus_reply + pcm_ref" where
  "open_select_pcm mode t =
     (let is_source = (mode = BLUEALSA_PCM_MODE_SOURCE) in
      if \<not> is_source \<and> mode \<noteq> BLUEALSA_PCM_MODE_SINK then
        Inl (ReturnError G_DBUS_ERROR_INVALID_ARGS (''Invalid operation mode: '' @ mode))
      else if (is_source \<and> t_profile t = BA_TRANSPORT_PROFILE_A2DP_SOURCE) \<or>
              (\<not> is_source \<and> t_profile t = BA_TRANSPORT_PROFILE_A2DP_SINK) then
        Inr A2DP_PCM
      else if IS_BA_TRANSPORT_PROFILE_SCO (t_profile t) then
        (if t_codec t = HFP_CODEC_UNDEFINED then
           Inl (ReturnError G_DBUS_ERROR_FAILED ''HFP audio codec not selected'')
         else Inr (if is_source then SCO_SPK_PCM else SCO_MIC_PCM))
      else Inl (ReturnError G_DBUS_ERROR_NOT_SUPPORTED ''Operation mode not supported''))"

text \<open>Lines 259-265: the pipe and the socket pair. \<^verbatim>\<open>socketpair\<close> is called only when
  \<^verbatim>\<open>pipe2\<close> has succeeded. The result is \<^verbatim>\<open>pcm_fds\<close> and the open descriptors, with the
  \<^verbatim>\<open>errno\<close> of the failure when there is one.\<close>

definition open_create_fds :: "open_env \<Rightarrow> int set \<Rightarrow> errno option \<times> int list \<times> int set" where
  "open_create_fds env fds =
     (case pipe2_result env of
        Inl e \<Rightarrow> (Some e, [-1, -1, -1, -1], fds)
      | Inr (r, w) \<Rightarrow>
          (case socketpair_result env of
             Inl e \<Rightarrow> (Some e, [int r, int w, -1, -1], fds \<union> {int r, int w})
           | Inr (a, b) \<Rightarrow>
               (None, [int r, int w, int a, int b], fds \<union> {int r, int w} \<union> {int a, int b})))"

definition bluealsa_pcm_open :: "open_env \<Rightarrow> string \<Rightarrow> daemon \<Rightarrow> open_result \<times> daemon" where
  "bluealsa_pcm_open env mode d =
     (let t = transport d; is_source = (mode = BLUEALSA_PCM_MODE_SOURCE) in
      case open_select_pcm mode t of
        Inl err \<Rightarrow> open_fail err [-1, -1, -1, -1] d
      | Inr p \<Rightarrow>
          if pcm_fd p t \<noteq> -1 then
            open_fail (ReturnError G_DBUS_ERROR_FAILED (strerror EBUSY)) [-1, -1, -1, -1] d
          else
            (case open_create_fds env (open_fds d) of
               (Some e, fds, opened) \<Rightarrow>
                 open_fail (ReturnError G_DBUS_ERROR_FAILED (''Create PIPE: '' @ strerror e)) fds
                   (d\<lparr>open_fds := opened\<rparr>)
             | (None, fds, opened) \<Rightarrow>
                 (let t1 = set_pcm_fd p (fds ! (if is_source then 0 else 1)) t;
                      d1 = d\<lparr>open_fds := opened, transport := t1\<rparr> in
                  case fcntl_result env of
                    Inl e \<Rightarrow>
                      open_fail (ReturnError G_DBUS_ERROR_FAILED (''Setup PIPE: '' @ strerror e)) fds d1
                  | Inr _ \<Rightarrow>
                      (let t2 = t1\<lparr>sig_pipe := sig_pipe t1 @ [TRANSPORT_PCM_OPEN]\<rparr>;
                           acquiring = (t_profile t = BA_TRANSPORT_PROFILE_A2DP_SOURCE);
                           t3 = (if acquiring then t2\<lparr>acquire_calls := acquire_calls t2 + 1\<rparr> else t2);
                           d3 = d1\<lparr>transport := t3\<rparr> in
                       case (if acquiring then acquire_result env else Inr ()) of
                         Inl e \<Rightarrow>
                           open_fail (ReturnError G_DBUS_ERROR_FAILED
                                        (''Acquire transport: '' @ strerror e)) fds d3
                       | Inr _ \<Rightarrow>
                           (\<lparr>reply = ReturnValue (fds ! (if is_source then 1 else 0)) (fds ! 3),
                             pcm_fds = fds\<rparr>,
                            d3\<lparr>watched := watched d3 @ [fds ! 2]\<rparr>)))))"

subsection \<open>Volume scaling: \<^verbatim>\<open>io_thread_scale_pcm\<close> (io.c, lines 60-72)\<close>

text \<open>The volume fields of \<^verbatim>\<open>t->a2dp\<close>: a 7-bit magnitude and a mute flag per channel.\<close>

record a2dp_volume =
  ch1_muted :: bool
  ch1_volume :: nat
  ch2_muted :: bool
  ch2_volume :: nat

text \<open>The conversion of a \<^verbatim>\<open>double\<close> to an integer type truncates towards zero.\<close>

definition c_trunc :: "real \<Rightarrow> int" where
  "c_trunc y = (if 0 \<le> y then \<lfloor>y\<rfloor> else \<lceil>y\<rceil>)"

text \<open>Modelled from the spec: \<^verbatim>\<open>snd_pcm_scale_s16le\<close> is defined in utils.c, which is not
  among the sources. The spec (4.9): "multiply left/right samples by" the channel's factor,
  "applied in place on 16-bit signed PCM with saturation on overflow". Samples are
  interleaved, the left channel (channel 1) first; a mono stream has channel 1 only. The
  first \<open>samples\<close> elements of the buffer are scaled. The factors are \<^verbatim>\<open>double\<close>s in the
  code and real numbers here.\<close>

definition scale_s16 :: "real \<Rightarrow> 16 word \<Rightarrow> 16 word" where
  "scale_s16 k x = word_of_int (max (- 32768) (min 32767 (c_trunc (real_of_int (sint x) * k))))"

definition snd_pcm_scale_s16le :: "16 word list \<Rightarrow> nat \<Rightarrow> nat \<Rightarrow> real \<Rightarrow> real \<Rightarrow> 16 word list" where
  "snd_pcm_scale_s16le buffer samples channels ch1_scale ch2_scale =
     map (\<lambda>(i, x). if i < samples
                     then scale_s16 (if channels = 1 \<or> even i then ch1_scale else ch2_scale) x
                     else x)
         (enumerate 0 buffer)"

text \<open>The function of io.c: a muted channel has factor 0, any other
  \<^verbatim>\<open>pow(10, (-64 + 64.0 * volume / 127) / 20)\<close>.\<close>

definition io_thread_scale_pcm :: "a2dp_volume \<Rightarrow> 16 word list \<Rightarrow> nat \<Rightarrow> nat \<Rightarrow> 16 word list" where
  "io_thread_scale_pcm t buffer samples channels =
     (let ch1_scale = (if \<not> ch1_muted t
                       then 10 powr ((- 64 + 64 * real (ch1_volume t) / 127) / 20) else 0);
          ch2_scale = (if \<not> ch2_muted t
                       then 10 powr ((- 64 + 64 * real (ch2_volume t) / 127) / 20) else 0)
      in snd_pcm_scale_s16le buffer samples channels ch1_scale ch2_scale)"

subsection \<open>RTP packets and the state of an A2DP source I/O thread\<close>

text \<open>The sizes of \<^verbatim>\<open>rtp_header_t\<close> and \<^verbatim>\<open>rtp_media_header_t\<close> (a2dp-rtp.h, not among the
  sources): the spec (4.7) gives a 12-byte RTP header and a 1-byte media header.\<close>

definition RTP_HEADER_LEN :: nat where "RTP_HEADER_LEN = 12"
definition RTP_MEDIA_HEADER_LEN :: nat where "RTP_MEDIA_HEADER_LEN = 1"

text \<open>A \<^verbatim>\<open>size_t\<close> is a natural number here: the sizes of the code count the elements of
  buffers held in memory and stay far below \<open>2^64\<close>. The one operation that can leave the
  range is subtraction, which wraps around.\<close>

definition size_sub :: "nat \<Rightarrow> int \<Rightarrow> nat" where
  "size_sub a b = nat ((int a - b) mod 2 ^ 64)"

text \<open>One call of \<^verbatim>\<open>io_thread_write_bt\<close> as the socket sees it: the header fields of the
  packet (sequence number and timestamp as the peer reads them, that is after
  \<^verbatim>\<open>htons\<close>/\<^verbatim>\<open>htonl\<close>), the frame count of the media header where the codec has one, and
  the number of bytes passed to \<^verbatim>\<open>write\<close>. \<open>pkt_pcm_frames\<close> is not on the wire: it records
  how many PCM frames were encoded for the packet, which the timestamp cadence refers to.\<close>

record rtp_packet =
  pkt_seq :: "16 word"
  pkt_ts :: "32 word"
  pkt_markbit :: bool
  pkt_frame_count :: nat
  pkt_len :: nat
  pkt_pcm_frames :: nat

text \<open>The local variables of an A2DP source thread that live across iterations of its
  loop, the RTP header kept at the head of the \<^verbatim>\<open>bt\<close> buffer, and what the thread has done
  to the outside: the endpoint as it left it, the number of times it signalled the drained
  condition and flushed the FIFO, and every packet it passed to \<^verbatim>\<open>io_thread_write_bt\<close>
  with the outcome of the write. \<open>pcm_len\<close> is \<^verbatim>\<open>ffb_len_out(&pcm)\<close>, the samples waiting
  in the PCM buffer; \<open>ts_frames\<close> is used by the LDAC thread only.\<close>

record io_thread =
  seq_number :: "16 word"
  timestamp :: "32 word"
  ts_frames :: nat
  poll_timeout :: int
  asrs_frames :: nat
  pcm_len :: nat
  rtp_seq :: "16 word"
  rtp_ts :: "32 word"
  rtp_markbit :: bool
  rtp_frame_count :: nat
  a2dp_pcm :: ba_pcm
  thr_errno :: errno
  drained_signals :: nat
  flushes :: nat
  sent :: "(rtp_packet \<times> wr) list"

text \<open>What is fixed while a thread runs: the stream's channels and sampling rate, the
  writing MTU, \<^verbatim>\<open>config.a2dp.keep_alive\<close>, the capacities of the PCM and BT buffers, and the
  codec's sizes (SBC: samples consumed and bytes produced per frame; LDAC: samples per
  encoder call).\<close>

record io_config =
  cfg_channels :: nat
  cfg_samplerate :: nat
  cfg_mtu_write :: nat
  cfg_keep_alive :: int
  cfg_pcm_size :: nat
  cfg_bt_size :: nat
  sbc_pcm_samples :: nat
  sbc_frame_len :: nat
  ldac_pcm_samples :: nat

text \<open>\<^verbatim>\<open>io_thread_init_rtp\<close> (lines 183-201) and the declarations that follow it in each
  thread: the header is zeroed, then sequence number and timestamp are set from
  \<^verbatim>\<open>random()\<close> (here \<open>s\<close> and \<open>ts\<close>) and copied into the thread's counters.\<close>

definition io_thread_init :: "16 word \<Rightarrow> 32 word \<Rightarrow> ba_pcm \<Rightarrow> io_thread" where
  "io_thread_init s ts p =
     \<lparr>seq_number = s, timestamp = ts, ts_frames = 0, poll_timeout = - 1, asrs_frames = 0,
      pcm_len = 0, rtp_seq = s, rtp_ts = ts, rtp_markbit = False, rtp_frame_count = 0,
      a2dp_pcm = p, thr_errno = ENONE, drained_signals = 0, flushes = 0, sent = []\<rparr>"

text \<open>The packet a write passes to the socket: the header as it stands, and the length.\<close>

definition rtp_packet_of :: "io_thread \<Rightarrow> nat \<Rightarrow> nat \<Rightarrow> rtp_packet" where
  "rtp_packet_of st len frames =
     \<lparr>pkt_seq = rtp_seq st, pkt_ts = rtp_ts st, pkt_markbit = rtp_markbit st,
      pkt_frame_count = rtp_frame_count st, pkt_len = len, pkt_pcm_frames = frames\<rparr>"

definition io_thread_write_bt :: "nat \<Rightarrow> nat \<Rightarrow> wr \<Rightarrow> io_thread \<Rightarrow> io_thread" where
  "io_thread_write_bt len frames w st =
     st\<lparr>sent := sent st @ [(rtp_packet_of st len frames, w)],
        thr_errno := (case w of WrFail e \<Rightarrow> e | WrBytes _ \<Rightarrow> thr_errno st)\<rparr>"

text \<open>The test \<^verbatim>\<open>errno == ECONNRESET || errno == ENOTCONN\<close> after a failed write.\<close>

definition bt_disconnected :: "wr \<Rightarrow> bool" where
  "bt_disconnected w = (case w of WrFail e \<Rightarrow> e = ECONNRESET \<or> e = ENOTCONN | WrBytes _ \<Rightarrow> False)"

subsection \<open>One iteration of a source thread's loop: poll, signals, reading the FIFO\<close>

text \<open>What \<^verbatim>\<open>poll\<close> and the signal pipe answer in one iteration: \<^verbatim>\<open>poll\<close> times out
  (returns 0), fails, or reports readiness; with the signal pipe readable the thread reads
  a signal (\<open>None\<close> when that read fails, leaving \<^verbatim>\<open>sig\<close> at -1), otherwise it goes on to
  the FIFO.\<close>

datatype poll_ev = PollTimeout | PollFail errno | PollSignal "ba_transport_signal option" | PollPcm

text \<open>The environment of one iteration: the endpoint \<^verbatim>\<open>t->a2dp.pcm\<close> as the thread finds
  it (the controller may have opened or released it meanwhile), the answer of \<^verbatim>\<open>poll\<close>,
  what successive \<^verbatim>\<open>read\<close> calls on the FIFO return, and the answers of the codec and of
  the BT socket, whose shape depends on the codec.\<close>

record 'c io_event =
  ev_pcm :: ba_pcm
  ev_poll :: poll_ev
  ev_reads :: "rd list"
  ev_codec :: 'c

text \<open>How an iteration ends: the loop goes round again, the thread leaves its loop
  (\<^verbatim>\<open>goto fail\<close> or \<^verbatim>\<open>goto final\<close>), or the model has no answer: a script of the
  environment is used up, the environment breaks the contract of a call (a read longer than
  asked for, an encoder consuming more than it was given), or the code divides by zero.\<close>

datatype step = Continue io_thread | Exit io_thread | Stuck

text \<open>The same for the first half of an iteration, which may also deliver samples.\<close>

datatype dispatch = D_Continue io_thread | D_Exit io_thread | D_Samples nat io_thread | D_Stuck

text \<open>Lines 486-496 (SBC; 993-1003 AAC; 1446-1456 LDAC): the FIFO is read into the free
  part of the PCM buffer. 0 starts the keep-alive timeout, -1 with EAGAIN goes round again,
  any other -1 leaves the loop.\<close>

definition io_read_dispatch :: "io_config \<Rightarrow> 'c io_event \<Rightarrow> io_thread \<Rightarrow> dispatch" where
  "io_read_dispatch cfg ev st =
     (case io_thread_read_pcm (ev_reads ev) (thr_errno st) (ev_pcm ev) of
        None \<Rightarrow> D_Stuck
      | Some (samples, e, p) \<Rightarrow>
          (let st1 = st\<lparr>a2dp_pcm := p, thr_errno := e\<rparr> in
           if samples = 0 then D_Continue (st1\<lparr>poll_timeout := cfg_keep_alive cfg * 1000\<rparr>)
           else if samples = - 1 then (if e = EAGAIN then D_Continue st1 else D_Exit st1)
           else if int (cfg_pcm_size cfg - pcm_len st) < samples then D_Stuck
           else D_Samples (nat samples) st1))"

text \<open>Lines 442-484 (SBC; 949-991 AAC; 1402-1444 LDAC), identical in the three threads.\<close>

definition io_poll_dispatch :: "io_config \<Rightarrow> 'c io_event \<Rightarrow> io_thread \<Rightarrow> dispatch" where
  "io_poll_dispatch cfg ev st =
     (case ev_poll ev of
        PollTimeout \<Rightarrow>
          (let st1 = st\<lparr>drained_signals := drained_signals st + 1, poll_timeout := - 1\<rparr> in
           if fd (ev_pcm ev) = - 1 then D_Exit st1 else D_Continue st1)
      | PollFail e \<Rightarrow>
          (if e = EINTR then D_Continue (st\<lparr>thr_errno := e\<rparr>) else D_Exit (st\<lparr>thr_errno := e\<rparr>))
      | PollSignal sig \<Rightarrow>
          (case sig of
             Some TRANSPORT_PCM_OPEN \<Rightarrow> D_Continue (st\<lparr>poll_timeout := - 1, asrs_frames := 0\<rparr>)
           | Some TRANSPORT_PCM_RESUME \<Rightarrow> D_Continue (st\<lparr>poll_timeout := - 1, asrs_frames := 0\<rparr>)
           | Some TRANSPORT_PCM_CLOSE \<Rightarrow> io_read_dispatch cfg ev st
           | Some TRANSPORT_PCM_SYNC \<Rightarrow> D_Continue (st\<lparr>poll_timeout := 100\<rparr>)
           | Some TRANSPORT_PCM_DROP \<Rightarrow> D_Continue (st\<lparr>flushes := flushes st + 1\<rparr>)
           | _ \<Rightarrow> D_Continue st)
      | PollPcm \<Rightarrow> io_read_dispatch cfg ev st)"

text \<open>A run of a thread: its loop body applied to the events of successive iterations,
  until the thread leaves the loop. \<open>Continue\<close> at the end of the events means the thread is
  back at the top of its loop.\<close>

fun io_run :: "('e \<Rightarrow> io_thread \<Rightarrow> step) \<Rightarrow> 'e list \<Rightarrow> io_thread \<Rightarrow> step" where
  "io_run body [] st = Continue st"
| "io_run body (e # es) st =
     (case body e st of
        Continue st' \<Rightarrow> io_run body es st'
      | Exit st' \<Rightarrow> Exit st'
      | Stuck \<Rightarrow> Stuck)"

text \<open>A run (or an iteration) ends in state \<open>st'\<close>, still looping or having left the loop.\<close>

definition ends_in :: "step \<Rightarrow> io_thread \<Rightarrow> bool" where
  "ends_in r st' \<longleftrightarrow> r = Continue st' \<or> r = Exit st'"

text \<open>The run \<open>s, s + 1, s + 2, \<dots>\<close> of \<open>n\<close> sequence numbers, modulo \<open>2^16\<close>.\<close>

definition seqs_from :: "16 word \<Rightarrow> nat \<Rightarrow> 16 word list" where
  "seqs_from s n = map (\<lambda>i. s + of_nat i) [0..<n]"

subsection \<open>The SBC source: \<^verbatim>\<open>io_thread_a2dp_source_sbc\<close> (io.c, lines 368-593)\<close>

text \<open>One call of \<^verbatim>\<open>sbc_encode\<close>: an error (a negative return value), or the number of
  input bytes consumed and of bytes written to the output.\<close>

datatype sbc_enc = SbcEncFail | SbcEncoded nat nat

text \<open>Lines 527-546. The arguments after the script are \<^verbatim>\<open>input_len\<close>, \<^verbatim>\<open>output_len\<close>,
  \<^verbatim>\<open>ffb_len_out(&bt)\<close>, \<^verbatim>\<open>pcm_frames\<close> and \<^verbatim>\<open>sbc_frames\<close>; the result is \<^verbatim>\<open>input_len\<close>,
  \<^verbatim>\<open>ffb_len_out(&bt)\<close>, \<^verbatim>\<open>pcm_frames\<close> and \<^verbatim>\<open>sbc_frames\<close> when the loop ends.\<close>

fun sbc_encode_loop ::
  "io_config \<Rightarrow> sbc_enc list \<Rightarrow> nat \<Rightarrow> nat \<Rightarrow> nat \<Rightarrow> nat \<Rightarrow> nat \<Rightarrow> (nat \<times> nat \<times> nat \<times> nat) option" where
  "sbc_encode_loop cfg [] input_len output_len bt_len pcm_frames sbc_frames =
     (if input_len \<ge> sbc_pcm_samples cfg \<and> output_len \<ge> sbc_frame_len cfg then None
      else Some (input_len, bt_len, pcm_frames, sbc_frames))"
| "sbc_encode_loop cfg (e # es) input_len output_len bt_len pcm_frames sbc_frames =
     (if input_len \<ge> sbc_pcm_samples cfg \<and> output_len \<ge> sbc_frame_len cfg then
        (case e of
           SbcEncFail \<Rightarrow> Some (input_len, bt_len, pcm_frames, sbc_frames)
         | SbcEncoded len encoded \<Rightarrow>
             if input_len < len div 2 \<or> output_len < encoded \<or> cfg_channels cfg = 0 then None
             else sbc_encode_loop cfg es (input_len - len div 2) (output_len - encoded)
                    (bt_len + encoded) (pcm_frames + len div 2 div cfg_channels cfg)
                    (sbc_frames + 1))
      else Some (input_len, bt_len, pcm_frames, sbc_frames))"

text \<open>Lines 498-578: the part of an iteration that follows a read of \<open>samples\<close> samples.
  The frame count of the media header is a 4-bit field. The samples themselves, their
  scaling and the pacing by \<^verbatim>\<open>asrsync_sync\<close> (which only adds the frames to its count,
  spec 4.2) play no part in what follows.\<close>

definition sbc_data :: "io_config \<Rightarrow> nat \<Rightarrow> sbc_enc list \<times> wr \<Rightarrow> io_thread \<Rightarrow> step" where
  "sbc_data cfg samples codec st =
     (let samples1 = pcm_len st + samples;
          bt_len = RTP_HEADER_LEN + RTP_MEDIA_HEADER_LEN in
      case sbc_encode_loop cfg (fst codec) samples1 (size_sub (cfg_bt_size cfg) (int bt_len)) bt_len 0 0 of
        None \<Rightarrow> Stuck
      | Some (input_len, bt_len1, pcm_frames, sbc_frames) \<Rightarrow>
          (let st1 = st\<lparr>seq_number := seq_number st + 1, rtp_seq := seq_number st + 1,
                         rtp_ts := timestamp st, rtp_frame_count := sbc_frames mod 16\<rparr>;
               st2 = io_thread_write_bt bt_len1 pcm_frames (snd codec) st1 in
           if bt_disconnected (snd codec) then Exit st2
           else if cfg_samplerate cfg = 0 then Stuck
           else Continue (st2\<lparr>asrs_frames := asrs_frames st2 + pcm_frames,
                              timestamp := timestamp st2
                                + of_nat (pcm_frames * 10000 div cfg_samplerate cfg),
                              pcm_len := input_len\<rparr>)))"

definition sbc_step :: "io_config \<Rightarrow> (sbc_enc list \<times> wr) io_event \<Rightarrow> io_thread \<Rightarrow> step" where
  "sbc_step cfg ev st =
     (case io_poll_dispatch cfg ev st of
        D_Continue st' \<Rightarrow> Continue st'
      | D_Exit st' \<Rightarrow> Exit st'
      | D_Stuck \<Rightarrow> Stuck
      | D_Samples n st' \<Rightarrow> sbc_data cfg n (ev_codec ev) st')"

text \<open>Lines 390-409: the sizes of the SBC thread from the transport's writing MTU and the
  encoder's codesize (in bytes) and frame length. A writing MTU too small for one frame is
  raised; \<^verbatim>\<open>mtu_write_payload\<close> keeps its first value.\<close>

definition sbc_config :: "nat \<Rightarrow> nat \<Rightarrow> nat \<Rightarrow> nat \<Rightarrow> nat \<Rightarrow> int \<Rightarrow> io_config" where
  "sbc_config mtu codesize frame_len chans rate keep =
     (let mtu_write_payload = size_sub mtu (int (RTP_HEADER_LEN + RTP_MEDIA_HEADER_LEN));
          mtu1 = (if mtu_write_payload < frame_len
                  then RTP_HEADER_LEN + RTP_MEDIA_HEADER_LEN + frame_len else mtu) in
      \<lparr>cfg_channels = chans, cfg_samplerate = rate, cfg_mtu_write = mtu1, cfg_keep_alive = keep,
       cfg_pcm_size = (codesize div 2) * (mtu_write_payload div frame_len),
       cfg_bt_size = mtu1, sbc_pcm_samples = codesize div 2, sbc_frame_len = frame_len,
       ldac_pcm_samples = 0\<rparr>)"

subsection \<open>The AAC source: \<^verbatim>\<open>io_thread_a2dp_source_aac\<close> (io.c, lines 795-1101)\<close>

text \<open>One call of \<^verbatim>\<open>aacEncEncode\<close> in the loop: whether it returned \<^verbatim>\<open>AACENC_OK\<close>, the
  fields \<^verbatim>\<open>numOutBytes\<close> and \<^verbatim>\<open>numInSamples\<close> of \<^verbatim>\<open>out_args\<close> after the call, and what the
  writes of this payload to the BT socket return, in order.\<close>

datatype aac_enc = AacEnc (aac_ok: bool) (numOutBytes: nat) (numInSamples: nat) (aac_writes: "wr list")

text \<open>Lines 1032-1067, the fragmentation loop: \<open>payload_len_max\<close>, what the writes return,
  \<^verbatim>\<open>payload_len\<close>, and the frames of the encoder call (recorded with each packet).
  \<open>Continue\<close> is the end of the loop by \<^verbatim>\<open>break\<close>, \<open>Exit\<close> is \<^verbatim>\<open>goto fail\<close>. A write
  returns a number of bytes \<open>n\<close>; the code subtracts \<open>n - RTP_HEADER_LEN\<close> from the
  \<^verbatim>\<open>size_t\<close> \<^verbatim>\<open>payload_len\<close>.\<close>

fun aac_fragments :: "nat \<Rightarrow> wr list \<Rightarrow> nat \<Rightarrow> nat \<Rightarrow> io_thread \<Rightarrow> step" where
  "aac_fragments payload_len_max [] payload_len frames st = Stuck"
| "aac_fragments payload_len_max (w # ws) payload_len frames st =
     (let len = (if payload_len > payload_len_max then payload_len_max else payload_len);
          st1 = st\<lparr>rtp_markbit := (payload_len \<le> payload_len_max),
                    seq_number := seq_number st + 1, rtp_seq := seq_number st + 1\<rparr>;
          st2 = io_thread_write_bt (RTP_HEADER_LEN + len) frames w st1 in
      case w of
        WrFail e \<Rightarrow> if bt_disconnected w then Exit st2 else Continue st2
      | WrBytes n \<Rightarrow>
          (let payload_len1 = size_sub payload_len (int n - int RTP_HEADER_LEN) in
           if payload_len1 = 0 then Continue st2
           else aac_fragments payload_len_max ws payload_len1 frames st2))"

text \<open>Lines 1017-1085, the encoder loop, which runs while the PCM buffer holds samples.
  \<^verbatim>\<open>frames * 10000 / samplerate\<close> is computed in \<^verbatim>\<open>unsigned int\<close>.\<close>

fun aac_encode_loop :: "io_config \<Rightarrow> aac_enc list \<Rightarrow> io_thread \<Rightarrow> step" where
  "aac_encode_loop cfg [] st = (if pcm_len st > 0 then Stuck else Continue st)"
| "aac_encode_loop cfg (e # es) st =
     (if pcm_len st > 0 then
        (if pcm_len st < numInSamples e then Stuck
         else
           (case (if numOutBytes e > 0
                  then aac_fragments (size_sub (cfg_mtu_write cfg) (int RTP_HEADER_LEN))
                         (aac_writes e) (numOutBytes e) (numInSamples e div cfg_channels cfg)
                         (st\<lparr>rtp_ts := timestamp st\<rparr>)
                  else Continue st) of
              Stuck \<Rightarrow> Stuck
            | Exit st1 \<Rightarrow> Exit st1
            | Continue st1 \<Rightarrow>
                if cfg_channels cfg = 0 \<or> cfg_samplerate cfg = 0 then Stuck
                else
                  (let frames = numInSamples e div cfg_channels cfg in
                   aac_encode_loop cfg es
                     (st1\<lparr>asrs_frames := asrs_frames st1 + frames,
                          timestamp := timestamp st1
                            + of_nat ((frames * 10000 mod 2 ^ 32) div cfg_samplerate cfg),
                          pcm_len := pcm_len st1 - numInSamples e\<rparr>))))
      else Continue st)"

definition aac_step :: "io_config \<Rightarrow> (aac_enc list) io_event \<Rightarrow> io_thread \<Rightarrow> step" where
  "aac_step cfg ev st =
     (case io_poll_dispatch cfg ev st of
        D_Continue st' \<Rightarrow> Continue st'
      | D_Exit st' \<Rightarrow> Exit st'
      | D_Stuck \<Rightarrow> Stuck
      | D_Samples n st' \<Rightarrow> aac_encode_loop cfg (ev_codec ev) (st'\<lparr>pcm_len := pcm_len st' + n\<rparr>))"

subsection \<open>The LDAC source: \<^verbatim>\<open>io_thread_a2dp_source_ldac\<close> (io.c, lines 1314-1547)\<close>

text \<open>One call of \<^verbatim>\<open>ldacBT_encode\<close>: an error, or the input bytes used, the bytes written
  to the output (0 while the encoder is still collecting a frame), the frames they hold,
  and what the write to the BT socket returns when there is one.\<close>

datatype ldac_enc = LdacFail | LdacEncoded nat nat nat wr

text \<open>Lines 1475-1523, with \<^verbatim>\<open>input_len\<close> as argument; line 1529 when the loop ends.\<close>

fun ldac_encode_loop :: "io_config \<Rightarrow> ldac_enc list \<Rightarrow> nat \<Rightarrow> io_thread \<Rightarrow> step" where
  "ldac_encode_loop cfg [] input_len st =
     (if input_len \<ge> ldac_pcm_samples cfg then Stuck else Continue (st\<lparr>pcm_len := input_len\<rparr>))"
| "ldac_encode_loop cfg (e # es) input_len st =
     (if input_len \<ge> ldac_pcm_samples cfg then
        (case e of
           LdacFail \<Rightarrow> Continue (st\<lparr>pcm_len := input_len\<rparr>)
         | LdacEncoded len encoded frame_count w \<Rightarrow>
             (let frames = len div 2;
                  st1 = st\<lparr>rtp_frame_count := frame_count mod 16\<rparr>;
                  st2 = (if encoded \<noteq> 0
                         then io_thread_write_bt (RTP_HEADER_LEN + RTP_MEDIA_HEADER_LEN + encoded)
                                ((ts_frames st + frames) div cfg_channels cfg) w st1
                         else st1) in
              if input_len < frames then Stuck
              else if encoded \<noteq> 0 \<and> bt_disconnected w then Exit st2
              else if cfg_channels cfg = 0 then Stuck
              else
                (let st3 = st2\<lparr>asrs_frames := asrs_frames st2 + frames div cfg_channels cfg,
                               ts_frames := ts_frames st2 + frames\<rparr> in
                 if encoded \<noteq> 0 then
                   (if cfg_samplerate cfg = 0 then Stuck
                    else
                      (let ts1 = timestamp st3
                             + of_nat (ts_frames st3 div cfg_channels cfg * 10000
                                        div cfg_samplerate cfg) in
                       ldac_encode_loop cfg es (input_len - frames)
                         (st3\<lparr>timestamp := ts1, rtp_ts := ts1,
                              seq_number := seq_number st3 + 1, rtp_seq := seq_number st3 + 1,
                              ts_frames := 0\<rparr>)))
                 else ldac_encode_loop cfg es (input_len - frames) st3)))
      else Continue (st\<lparr>pcm_len := input_len\<rparr>))"

definition ldac_step :: "io_config \<Rightarrow> (ldac_enc list) io_event \<Rightarrow> io_thread \<Rightarrow> step" where
  "ldac_step cfg ev st =
     (case io_poll_dispatch cfg ev st of
        D_Continue st' \<Rightarrow> Continue st'
      | D_Exit st' \<Rightarrow> Exit st'
      | D_Stuck \<Rightarrow> Stuck
      | D_Samples n st' \<Rightarrow> ldac_encode_loop cfg (ev_codec ev) (pcm_len st' + n) st')"

subsection \<open>Relations between the states of a thread\<close>

text \<open>Between \<open>st\<close> and \<open>st'\<close> the thread has passed packets to the socket whose sequence
  numbers run on from \<open>seq_number st + 1\<close>, and its counter has moved on by their number.\<close>

definition seq_adv :: "io_thread \<Rightarrow> io_thread \<Rightarrow> bool" where
  "seq_adv st st' \<longleftrightarrow>
     (\<exists>new. sent st' = sent st @ new \<and>
            map (pkt_seq \<circ> fst) new = seqs_from (seq_number st + 1) (length new) \<and>
            seq_number st' = seq_number st + of_nat (length new))"

text \<open>The same for the LDAC thread, whose header holds the number of the next packet
  whenever the thread is at the top of its loop: \<open>ldac_adv\<close> between two such states,
  \<open>ldac_sent\<close> when the second is the state in which the thread leaves the loop.\<close>

definition ldac_adv :: "io_thread \<Rightarrow> io_thread \<Rightarrow> bool" where
  "ldac_adv st st' \<longleftrightarrow>
     (rtp_seq st = seq_number st \<longrightarrow>
       (\<exists>new. sent st' = sent st @ new \<and>
              map (pkt_seq \<circ> fst) new = seqs_from (seq_number st) (length new) \<and>
              seq_number st' = seq_number st + of_nat (length new) \<and>
              rtp_seq st' = seq_number st'))"

definition ldac_sent :: "io_thread \<Rightarrow> io_thread \<Rightarrow> bool" where
  "ldac_sent st st' \<longleftrightarrow>
     (rtp_seq st = seq_number st \<longrightarrow>
       (\<exists>new. sent st' = sent st @ new \<and>
              map (pkt_seq \<circ> fst) new = seqs_from (seq_number st) (length new)))"

text \<open>The first half of an iteration leaves the counters, the header, the PCM buffer and
  the packets sent as they were.\<close>

definition rtp_same :: "io_thread \<Rightarrow> io_thread \<Rightarrow> bool" where
  "rtp_same st st' \<longleftrightarrow>
     seq_number st' = seq_number st \<and> timestamp st' = timestamp st \<and>
     ts_frames st' = ts_frames st \<and> rtp_seq st' = rtp_seq st \<and> rtp_ts st' = rtp_ts st \<and>
     rtp_markbit st' = rtp_markbit st \<and> rtp_frame_count st' = rtp_frame_count st \<and>
     pcm_len st' = pcm_len st \<and> sent st' = sent st"

subsection \<open>Example runs\<close>

text \<open>An open endpoint, and three short runs, one per codec, at 44100 Hz stereo. The SBC
  run (MTU 679, codesize 512 bytes, frame length 119) reads 100 bytes, too few for a frame,
  then 1024 bytes whose packet the socket refuses, then 2048 bytes. The AAC run (MTU 112)
  encodes two frames of 1024 stereo samples, the first into 250 bytes, sent as three
  fragments. The LDAC run encodes blocks of 128 stereo samples, every second call giving a
  packet.\<close>

definition example_pcm :: ba_pcm where
  "example_pcm = \<lparr>fd = 7, closed = [], signalled = []\<rparr>"

definition example_read :: "nat \<Rightarrow> 'c \<Rightarrow> 'c io_event" where
  "example_read n c = \<lparr>ev_pcm = example_pcm, ev_poll = PollPcm, ev_reads = [RdBytes n], ev_codec = c\<rparr>"

definition sbc_example_cfg :: io_config where
  "sbc_example_cfg = sbc_config 679 512 119 2 44100 0"

definition sbc_example_run :: "(sbc_enc list \<times> wr) io_event list" where
  "sbc_example_run =
     [example_read 100 ([], WrBytes 13),
      example_read 1024 ([SbcEncoded 512 119, SbcEncoded 512 119], WrFail EBADF),
      example_read 2048 ([SbcEncoded 512 119, SbcEncoded 512 119, SbcEncoded 512 119,
                          SbcEncoded 512 119, SbcEncoded 512 119], WrBytes 489)]"

definition aac_example_cfg :: io_config where
  "aac_example_cfg =
     \<lparr>cfg_channels = 2, cfg_samplerate = 44100, cfg_mtu_write = 112, cfg_keep_alive = 0,
      cfg_pcm_size = 2048, cfg_bt_size = 780, sbc_pcm_samples = 0, sbc_frame_len = 0,
      ldac_pcm_samples = 0\<rparr>"

definition aac_example_run :: "(aac_enc list) io_event list" where
  "aac_example_run =
     [example_read 4096 [AacEnc True 250 2048 [WrBytes 112, WrBytes 112, WrBytes 62]],
      example_read 4096 [AacEnc True 50 2048 [WrBytes 62]]]"

definition ldac_example_cfg :: io_config where
  "ldac_example_cfg =
     \<lparr>cfg_channels = 2, cfg_samplerate = 44100, cfg_mtu_write = 679, cfg_keep_alive = 0,
      cfg_pcm_size = 256, cfg_bt_size = 679, sbc_pcm_samples = 0, sbc_frame_len = 0,
      ldac_pcm_samples = 256\<rparr>"

definition ldac_example_run :: "(ldac_enc list) io_event list" where
  "ldac_example_run =
     [example_read 512 [LdacEncoded 512 0 0 (WrBytes 0)],
      example_read 512 [LdacEncoded 512 300 2 (WrBytes 313)],
      example_read 512 [LdacEncoded 512 0 0 (WrBytes 0)],
      example_read 512 [LdacEncoded 512 300 2 (WrBytes 313)]]"

text \<open>The states in which the three example runs end when the threads start with sequence
  number 65534 and timestamp 100.\<close>

definition sbc_example_end :: io_thread where
  "sbc_example_end =
     \<lparr>seq_number = 1, timestamp = 274, ts_frames = 0, poll_timeout = - 1,
      asrs_frames = 768, pcm_len = 50, rtp_seq = 1, rtp_ts = 158,
      rtp_markbit = False, rtp_frame_count = 4,
      a2dp_pcm = example_pcm, thr_errno = EBADF, drained_signals = 0, flushes = 0,
      sent =
        [(\<lparr>pkt_seq = 65535, pkt_ts = 100, pkt_markbit = False,
            pkt_frame_count = 0, pkt_len = 13, pkt_pcm_frames = 0\<rparr>, WrBytes 13),
         (\<lparr>pkt_seq = 0, pkt_ts = 100, pkt_markbit = False,
            pkt_frame_count = 2, pkt_len = 251, pkt_pcm_frames = 256\<rparr>, WrFail EBADF),
         (\<lparr>pkt_seq = 1, pkt_ts = 158, pkt_markbit = False,
            pkt_frame_count = 4, pkt_len = 489, pkt_pcm_frames = 512\<rparr>, WrBytes 489)]\<rparr>"

definition aac_example_end :: io_thread where
  "aac_example_end =
     \<lparr>seq_number = 2, timestamp = 564, ts_frames = 0, poll_timeout = - 1,
      asrs_frames = 2048, pcm_len = 0, rtp_seq = 2, rtp_ts = 332,
      rtp_markbit = True, rtp_frame_count = 0,
      a2dp_pcm = example_pcm, thr_errno = ENONE, drained_signals = 0, flushes = 0,
      sent =
        [(\<lparr>pkt_seq = 65535, pkt_ts = 100, pkt_markbit = False,
            pkt_frame_count = 0, pkt_len = 112, pkt_pcm_frames = 1024\<rparr>, WrBytes 112),
         (\<lparr>pkt_seq = 0, pkt_ts = 100, pkt_markbit = False,
            pkt_frame_count = 0, pkt_len = 112, pkt_pcm_frames = 1024\<rparr>, WrBytes 112),
         (\<lparr>pkt_seq = 1, pkt_ts = 100, pkt_markbit = True,
            pkt_frame_count = 0, pkt_len = 62, pkt_pcm_frames = 1024\<rparr>, WrBytes 62),
         (\<lparr>pkt_seq = 2, pkt_ts = 332, pkt_markbit = True,
            pkt_frame_count = 0, pkt_len = 62, pkt_pcm_frames = 1024\<rparr>, WrBytes 62)]\<rparr>"

definition ldac_example_end :: io_thread where
  "ldac_example_end =
     \<lparr>seq_number = 0, timestamp = 216, ts_frames = 0, poll_timeout = - 1,
      asrs_frames = 512, pcm_len = 0, rtp_seq = 0, rtp_ts = 216,
      rtp_markbit = False, rtp_frame_count = 2,
      a2dp_pcm = example_pcm, thr_errno = ENONE, drained_signals = 0, flushes = 0,
      sent =
        [(\<lparr>pkt_seq = 65534, pkt_ts = 100, pkt_markbit = False,
            pkt_frame_count = 2, pkt_len = 313, pkt_pcm_frames = 256\<rparr>, WrBytes 313),
         (\<lparr>pkt_seq = 65535, pkt_ts = 158, pkt_markbit = False,
            pkt_frame_count = 2, pkt_len = 313, pkt_pcm_frames = 256\<rparr>, WrBytes 313)]\<rparr>"

subsection \<open>Packets written, and the timestamp cadence\<close>

text \<open>A write has put its packet on the socket when it returned a number of bytes.\<close>

definition wr_ok :: "wr \<Rightarrow> bool" where
  "wr_ok w = (case w of WrBytes _ \<Rightarrow> True | WrFail _ \<Rightarrow> False)"

text \<open>The packets written to the BT socket: of those passed to \<^verbatim>\<open>io_thread_write_bt\<close>, the
  ones whose write succeeded.\<close>

definition written :: "io_thread \<Rightarrow> rtp_packet list" where
  "written st = map fst (filter (wr_ok \<circ> snd) (sent st))"


definition ts_step32 :: "io_config \<Rightarrow> nat \<Rightarrow> 32 word" where
  "ts_step32 cfg frames = of_nat ((frames * 10000 mod 2 ^ 32) div cfg_samplerate cfg)"




text \<open>The sizes of the payloads into which the fragmentation loop splits a payload of
  \<open>payload_len\<close> bytes when every write takes its packet whole: full chunks of
  \<open>payload_len_max\<close> bytes, then the rest.\<close>

definition aac_chunks :: "nat \<Rightarrow> nat \<Rightarrow> nat list" where
  "aac_chunks payload_len_max payload_len =
     (let k = (payload_len - 1) div payload_len_max in
      replicate k payload_len_max @ [payload_len - k * payload_len_max])"

subsection \<open>More example runs\<close>

text \<open>Three SBC iterations of one frame each (128 stereo frames per packet): in the
  steady run every write succeeds, in the lossy run the socket refuses the second packet.
  Two AAC iterations of one frame each that fit the MTU. One SBC iteration whose read is
  too short for a frame and whose write fails.\<close>

definition sbc_steady_run :: "(sbc_enc list \<times> wr) io_event list" where
  "sbc_steady_run =
     [example_read 512 ([SbcEncoded 512 119], WrBytes 132),
      example_read 512 ([SbcEncoded 512 119], WrBytes 132),
      example_read 512 ([SbcEncoded 512 119], WrBytes 132)]"

definition sbc_steady_end :: io_thread where
  "sbc_steady_end =
     \<lparr>seq_number = 1, timestamp = 187, ts_frames = 0, poll_timeout = - 1,
      asrs_frames = 384, pcm_len = 0, rtp_seq = 1, rtp_ts = 158,
      rtp_markbit = False, rtp_frame_count = 1,
      a2dp_pcm = example_pcm, thr_errno = ENONE, drained_signals = 0, flushes = 0,
      sent =
        [(\<lparr>pkt_seq = 65535, pkt_ts = 100, pkt_markbit = False,
            pkt_frame_count = 1, pkt_len = 132, pkt_pcm_frames = 128\<rparr>, WrBytes 132),
         (\<lparr>pkt_seq = 0, pkt_ts = 129, pkt_markbit = False,
            pkt_frame_count = 1, pkt_len = 132, pkt_pcm_frames = 128\<rparr>, WrBytes 132),
         (\<lparr>pkt_seq = 1, pkt_ts = 158, pkt_markbit = False,
            pkt_frame_count = 1, pkt_len = 132, pkt_pcm_frames = 128\<rparr>, WrBytes 132)]\<rparr>"









section \<open>Theorems\<close>

subsection \<open>Reading the PCM FIFO\<close>

lemma read_retry_eintr:
  "read_retry (replicate k (RdFail EINTR) @ rs) e =
     (if k = 0 then read_retry rs e else read_retry rs EINTR)"
  by (induction k arbitrary: e) auto

lemma io_thread_read_pcm_retry:
  "io_thread_read_pcm (replicate k (RdFail EINTR) @ rs) e0 pcm =
     io_thread_read_pcm rs (if k = 0 then e0 else EINTR) pcm"
  by (simp add: io_thread_read_pcm_def read_retry_eintr)

text \<open>
  C2 (as amended). Whatever number of interrupted reads comes first, the call goes on to
  the next read. When that read returns 0 or fails with EBADF, the endpoint is released
  and the call returns 0. When it fails with EAGAIN, the call returns -1 with \<^verbatim>\<open>errno\<close>
  still EAGAIN and leaves the endpoint as it was (the I/O loops test for exactly this pair
  and go back to polling).
\<close>

theorem io_thread_read_pcm_outcomes:
  "io_thread_read_pcm (replicate k (RdFail EINTR) @ r # rest) e0 pcm =
     io_thread_read_pcm (r # rest) (if k = 0 then e0 else EINTR) pcm
   \<and> (r = RdBytes 0 \<or> r = RdFail EBADF \<longrightarrow>
        (\<exists>e. io_thread_read_pcm (replicate k (RdFail EINTR) @ r # rest) e0 pcm =
               Some (0, e, ba_transport_release_pcm pcm)))
   \<and> (r = RdFail EAGAIN \<longrightarrow>
        io_thread_read_pcm (replicate k (RdFail EINTR) @ r # rest) e0 pcm =
          Some (- 1, EAGAIN, pcm))"
proof -
  have "r = RdBytes 0 \<or> r = RdFail EBADF \<Longrightarrow>
    \<exists>e'. io_thread_read_pcm (r # rest) e pcm = Some (0, e', ba_transport_release_pcm pcm)" for e
    by (auto simp: io_thread_read_pcm_def)
  moreover have "r = RdFail EAGAIN \<Longrightarrow> io_thread_read_pcm (r # rest) e pcm = Some (- 1, EAGAIN, pcm)" for e
    by (simp add: io_thread_read_pcm_def)
  ultimately show ?thesis
    unfolding io_thread_read_pcm_retry by blast
qed

theorem io_thread_read_pcm_outcomes_witness:
  "(\<exists>e. io_thread_read_pcm [RdFail EINTR, RdFail EINTR, RdBytes 0, RdBytes 8] ENONE
          \<lparr>fd = 7, closed = [], signalled = []\<rparr> =
        Some (0, e, \<lparr>fd = - 1, closed = [7], signalled = [TRANSPORT_PCM_CLOSE]\<rparr>))
   \<and> io_thread_read_pcm [RdFail EINTR, RdFail EAGAIN] ENONE
          \<lparr>fd = 7, closed = [], signalled = []\<rparr> =
        Some (- 1, EAGAIN, \<lparr>fd = 7, closed = [], signalled = []\<rparr>)"
proof -
  have a: "replicate 2 (RdFail EINTR) @ RdBytes 0 # [RdBytes 8] = [RdFail EINTR, RdFail EINTR, RdBytes 0, RdBytes 8]"
    and b: "replicate 1 (RdFail EINTR) @ RdFail EAGAIN # [] = [RdFail EINTR, RdFail EAGAIN]"
    by (simp_all add: numeral_2_eq_2)
  have c: "ba_transport_release_pcm \<lparr>fd = 7, closed = [], signalled = []\<rparr> = \<lparr>fd = - 1, closed = [7], signalled = [TRANSPORT_PCM_CLOSE]\<rparr>"
    by (simp add: ba_transport_release_pcm_def)
  from io_thread_read_pcm_outcomes [of 2 "RdBytes 0" "[RdBytes 8]" ENONE
          "\<lparr>fd = 7, closed = [], signalled = []\<rparr>", unfolded a c]
        io_thread_read_pcm_outcomes [of 1 "RdFail EAGAIN" "[]" ENONE
          "\<lparr>fd = 7, closed = [], signalled = []\<rparr>", unfolded b]
  show ?thesis by blast
qed

text \<open>The claim as first stated has the call return 0 on EAGAIN; it returns -1.\<close>

theorem io_thread_read_pcm_eagain_counterexample:
  "io_thread_read_pcm [RdFail EAGAIN] ENONE \<lparr>fd = 7, closed = [], signalled = []\<rparr> =
     Some (- 1, EAGAIN, \<lparr>fd = 7, closed = [], signalled = []\<rparr>)"
  by (simp add: io_thread_read_pcm_def)

subsection \<open>The control channel\<close>

lemma controller_keywords:
  "bluealsa_pcm_controller (G_IO_STATUS_NORMAL ''Drain'') c =
     (True, g_io_channel_write_chars ''OK'' (ba_transport_drain_pcm c))"
  "bluealsa_pcm_controller (G_IO_STATUS_NORMAL ''Drop'') c =
     (True, g_io_channel_write_chars ''OK'' (ba_transport_send_signal TRANSPORT_PCM_DROP c))"
  "bluealsa_pcm_controller (G_IO_STATUS_NORMAL ''Pause'') c =
     (True, g_io_channel_write_chars ''OK''
        (ba_transport_send_signal TRANSPORT_PCM_PAUSE (ba_transport_set_state TRANSPORT_PAUSED c)))"
  "bluealsa_pcm_controller (G_IO_STATUS_NORMAL ''Resume'') c =
     (True, g_io_channel_write_chars ''OK''
        (ba_transport_send_signal TRANSPORT_PCM_RESUME (ba_transport_set_state TRANSPORT_ACTIVE c)))"
  by (simp_all add: bluealsa_pcm_controller_def c_head_def BLUEALSA_PCM_CTRL_DRAIN_def
      BLUEALSA_PCM_CTRL_DROP_def BLUEALSA_PCM_CTRL_PAUSE_def BLUEALSA_PCM_CTRL_RESUME_def)

lemma controller_unknown_word:
  "bluealsa_pcm_controller (G_IO_STATUS_NORMAL ''Xyzzy'') c =
     (True, g_io_channel_write_chars ''Invalid'' c)"
  by (simp add: bluealsa_pcm_controller_def c_head_def BLUEALSA_PCM_CTRL_DRAIN_def
      BLUEALSA_PCM_CTRL_DROP_def BLUEALSA_PCM_CTRL_PAUSE_def BLUEALSA_PCM_CTRL_RESUME_def)

text \<open>
  C1, at the input where the code departs from it. The one-byte payload \<open>D\<close> is none of
  the four keywords, yet \<^verbatim>\<open>strncmp(command, "Drain", len)\<close> compares only the \<open>len = 1\<close>
  bytes received, finds them equal, and the controller drains the transport and replies
  \<open>OK\<close> where the claim has it reply \<open>Invalid\<close>.
\<close>

theorem controller_accepts_keyword_prefix:
  "bluealsa_pcm_controller (G_IO_STATUS_NORMAL ''D'') c =
     (True, g_io_channel_write_chars ''OK'' (ba_transport_drain_pcm c))"
  by (simp add: bluealsa_pcm_controller_def c_head_def BLUEALSA_PCM_CTRL_DRAIN_def)

subsection \<open>Opening a PCM\<close>

lemma open_create_fds_cases:
  "open_create_fds env fds = (eo, l, opened) \<Longrightarrow>
     opened = fds \<union> {f \<in> set l. f \<noteq> -1} \<and> length l = 4"
  by (auto simp: open_create_fds_def split: sum.splits prod.splits)

lemma open_fail_closes:
  "open_fail r l d = (res, d') \<Longrightarrow>
     reply res = r \<and> pcm_fds res = l \<and> open_fds d' = open_fds d - {f \<in> set l. f \<noteq> -1} \<and>
     transport d' = transport d \<and> watched d' = watched d"
  by (auto simp: open_fail_def)

text \<open>
  C8. When the call is for an endpoint (the mode is valid, the transport has an endpoint
  for it and, for SCO, a codec is selected, so that \<^verbatim>\<open>pcm\<close> points to it) whose FIFO
  descriptor is not -1, the reply is the error \<^verbatim>\<open>strerror(EBUSY)\<close> and the daemon is exactly
  as before: the transport and its endpoints, the signal pipe, the open descriptors and the
  watched channels.
\<close>

theorem bluealsa_pcm_open_busy:
  assumes "open_select_pcm mode (transport d) = Inr p"
    and "pcm_fd p (transport d) \<noteq> -1"
  shows "bluealsa_pcm_open env mode d =
           (\<lparr>reply = ReturnError G_DBUS_ERROR_FAILED ''Device or resource busy'',
             pcm_fds = [-1, -1, -1, -1]\<rparr>, d)"
  using assms by (simp add: bluealsa_pcm_open_def open_fail_def strerror_def)


theorem bluealsa_pcm_open_busy_witness:
  "open_select_pcm ''source''
      \<lparr>t_profile = BA_TRANSPORT_PROFILE_A2DP_SOURCE, t_codec = HFP_CODEC_UNDEFINED, a2dp_pcm_fd = 9,
       sco_spk_pcm_fd = -1, sco_mic_pcm_fd = -1, sig_pipe = [], acquire_calls = 0\<rparr> = Inr A2DP_PCM
   \<and> bluealsa_pcm_open
      \<lparr>pipe2_result = Inr (10, 11), socketpair_result = Inr (12, 13),
       fcntl_result = Inr (), acquire_result = Inr ()\<rparr> ''source''
      \<lparr>transport = \<lparr>t_profile = BA_TRANSPORT_PROFILE_A2DP_SOURCE, t_codec = HFP_CODEC_UNDEFINED,
         a2dp_pcm_fd = 9, sco_spk_pcm_fd = -1, sco_mic_pcm_fd = -1, sig_pipe = [],
         acquire_calls = 0\<rparr>, open_fds = {0, 1, 2, 9}, watched = []\<rparr> =
     (\<lparr>reply = ReturnError G_DBUS_ERROR_FAILED ''Device or resource busy'',
       pcm_fds = [-1, -1, -1, -1]\<rparr>,
      \<lparr>transport = \<lparr>t_profile = BA_TRANSPORT_PROFILE_A2DP_SOURCE, t_codec = HFP_CODEC_UNDEFINED,
         a2dp_pcm_fd = 9, sco_spk_pcm_fd = -1, sco_mic_pcm_fd = -1, sig_pipe = [],
         acquire_calls = 0\<rparr>, open_fds = {0, 1, 2, 9}, watched = []\<rparr>)"
proof -
  let ?t = "\<lparr>t_profile = BA_TRANSPORT_PROFILE_A2DP_SOURCE, t_codec = HFP_CODEC_UNDEFINED, a2dp_pcm_fd = 9,
       sco_spk_pcm_fd = -1, sco_mic_pcm_fd = -1, sig_pipe = [], acquire_calls = 0\<rparr>"
  let ?d = "\<lparr>transport = ?t, open_fds = {0, 1, 2, 9}, watched = []\<rparr>"
  have sel: "open_select_pcm ''source'' (transport ?d) = Inr A2DP_PCM"
    by (simp add: open_select_pcm_def BLUEALSA_PCM_MODE_SOURCE_def)
  have busy: "pcm_fd A2DP_PCM (transport ?d) \<noteq> -1"
    by (simp add: pcm_fd_def)
  from bluealsa_pcm_open_busy [OF sel busy] sel show ?thesis by simp
qed

lemma open_select_pcm_endpoint:
  "open_select_pcm mode t = Inr p \<longleftrightarrow>
     (mode = ''source'' \<and> t_profile t = BA_TRANSPORT_PROFILE_A2DP_SOURCE \<and> p = A2DP_PCM) \<or>
     (mode = ''sink'' \<and> t_profile t = BA_TRANSPORT_PROFILE_A2DP_SINK \<and> p = A2DP_PCM) \<or>
     (mode = ''source'' \<and> IS_BA_TRANSPORT_PROFILE_SCO (t_profile t) \<and>
        t_codec t \<noteq> HFP_CODEC_UNDEFINED \<and> p = SCO_SPK_PCM) \<or>
     (mode = ''sink'' \<and> IS_BA_TRANSPORT_PROFILE_SCO (t_profile t) \<and>
        t_codec t \<noteq> HFP_CODEC_UNDEFINED \<and> p = SCO_MIC_PCM)"
  unfolding open_select_pcm_def BLUEALSA_PCM_MODE_SOURCE_def BLUEALSA_PCM_MODE_SINK_def Let_def
  by (cases "mode = ''source''"; cases "mode = ''sink''";
      cases "t_profile t = BA_TRANSPORT_PROFILE_A2DP_SOURCE";
      cases "t_profile t = BA_TRANSPORT_PROFILE_A2DP_SINK";
      cases "IS_BA_TRANSPORT_PROFILE_SCO (t_profile t)"; cases "t_codec t = HFP_CODEC_UNDEFINED";
      auto simp: IS_BA_TRANSPORT_PROFILE_SCO_def)

text \<open>
  C10. Whenever the method replies with an error, whichever of the error paths it took,
  no descriptor created during the call is still open when it returns: nothing is open that
  was not open before, every entry of \<^verbatim>\<open>pcm_fds\<close> other than -1 is closed, and so are both
  ends of the pipe and both ends of the socket pair whenever the call got as far as
  creating them.
\<close>

theorem bluealsa_pcm_open_error_closes_fds:
  assumes "bluealsa_pcm_open env mode d = (res, d')" and "is_error (reply res)"
  shows "open_fds d' \<subseteq> open_fds d
       \<and> (\<forall>f \<in> set (pcm_fds res). f \<noteq> -1 \<longrightarrow> f \<notin> open_fds d')
       \<and> (\<forall>p r w. open_select_pcm mode (transport d) = Inr p \<and> pcm_fd p (transport d) = -1 \<and>
              pipe2_result env = Inr (r, w) \<longrightarrow>
            int r \<notin> open_fds d' \<and> int w \<notin> open_fds d' \<and>
            (\<forall>a b. socketpair_result env = Inr (a, b) \<longrightarrow>
               int a \<notin> open_fds d' \<and> int b \<notin> open_fds d'))"
  using assms
  apply (simp add: bluealsa_pcm_open_def Let_def split: sum.splits if_splits prod.splits option.splits)
  apply (auto simp: open_fail_def is_error_def open_create_fds_def split: sum.splits prod.splits)
  done

theorem bluealsa_pcm_open_error_closes_fds_witness:
  "is_error (reply (fst (bluealsa_pcm_open
      \<lparr>pipe2_result = Inr (10, 11), socketpair_result = Inr (12, 13),
       fcntl_result = Inr (), acquire_result = Inl EOTHER\<rparr> ''source''
      \<lparr>transport = \<lparr>t_profile = BA_TRANSPORT_PROFILE_A2DP_SOURCE, t_codec = HFP_CODEC_UNDEFINED,
         a2dp_pcm_fd = -1, sco_spk_pcm_fd = -1, sco_mic_pcm_fd = -1, sig_pipe = [],
         acquire_calls = 0\<rparr>, open_fds = {0, 1, 2}, watched = []\<rparr>)))
   \<and> pcm_fds (fst (bluealsa_pcm_open
      \<lparr>pipe2_result = Inr (10, 11), socketpair_result = Inr (12, 13),
       fcntl_result = Inr (), acquire_result = Inl EOTHER\<rparr> ''source''
      \<lparr>transport = \<lparr>t_profile = BA_TRANSPORT_PROFILE_A2DP_SOURCE, t_codec = HFP_CODEC_UNDEFINED,
         a2dp_pcm_fd = -1, sco_spk_pcm_fd = -1, sco_mic_pcm_fd = -1, sig_pipe = [],
         acquire_calls = 0\<rparr>, open_fds = {0, 1, 2}, watched = []\<rparr>)) = [10, 11, 12, 13]
   \<and> open_fds (snd (bluealsa_pcm_open
      \<lparr>pipe2_result = Inr (10, 11), socketpair_result = Inr (12, 13),
       fcntl_result = Inr (), acquire_result = Inl EOTHER\<rparr> ''source''
      \<lparr>transport = \<lparr>t_profile = BA_TRANSPORT_PROFILE_A2DP_SOURCE, t_codec = HFP_CODEC_UNDEFINED,
         a2dp_pcm_fd = -1, sco_spk_pcm_fd = -1, sco_mic_pcm_fd = -1, sig_pipe = [],
         acquire_calls = 0\<rparr>, open_fds = {0, 1, 2}, watched = []\<rparr>)) \<subseteq> {0, 1, 2}
   \<and> 10 \<notin> open_fds (snd (bluealsa_pcm_open
      \<lparr>pipe2_result = Inr (10, 11), socketpair_result = Inr (12, 13),
       fcntl_result = Inr (), acquire_result = Inl EOTHER\<rparr> ''source''
      \<lparr>transport = \<lparr>t_profile = BA_TRANSPORT_PROFILE_A2DP_SOURCE, t_codec = HFP_CODEC_UNDEFINED,
         a2dp_pcm_fd = -1, sco_spk_pcm_fd = -1, sco_mic_pcm_fd = -1, sig_pipe = [],
         acquire_calls = 0\<rparr>, open_fds = {0, 1, 2}, watched = []\<rparr>))"
proof -
  let ?env = "\<lparr>pipe2_result = Inr (10, 11), socketpair_result = Inr (12, 13),
       fcntl_result = Inr (), acquire_result = Inl EOTHER\<rparr>"
  let ?d = "\<lparr>transport = \<lparr>t_profile = BA_TRANSPORT_PROFILE_A2DP_SOURCE, t_codec = HFP_CODEC_UNDEFINED,
         a2dp_pcm_fd = -1, sco_spk_pcm_fd = -1, sco_mic_pcm_fd = -1, sig_pipe = [],
         acquire_calls = 0\<rparr>, open_fds = {0, 1, 2}, watched = []\<rparr>"
  let ?r = "bluealsa_pcm_open ?env ''source'' ?d"
  have eq: "?r = (fst ?r, snd ?r)" by simp
  have rep: "reply (fst ?r) = ReturnError G_DBUS_ERROR_FAILED (''Acquire transport: '' @ strerror EOTHER)"
    and fds: "pcm_fds (fst ?r) = [10, 11, 12, 13]"
    by (simp_all add: bluealsa_pcm_open_def open_select_pcm_def BLUEALSA_PCM_MODE_SOURCE_def
        pcm_fd_def open_create_fds_def open_fail_def set_pcm_fd_def)
  have err: "is_error (reply (fst ?r))"
    unfolding rep by (simp add: is_error_def)
  from bluealsa_pcm_open_error_closes_fds [OF eq err] err fds
  show ?thesis by auto
qed


subsection \<open>Volume scaling\<close>

lemma c_trunc_of_int: "c_trunc (real_of_int i) = i"
  by (simp add: c_trunc_def)

lemma scale_s16_unit: "scale_s16 1 x = x"
proof -
  have b: "- 32768 \<le> sint x" "sint x \<le> 32767"
    using sint_ge [of x] sint_lt [of x] by simp_all
  have "scale_s16 1 x = word_of_int (max (- 32768) (min 32767 (sint x)))"
    by (simp only: scale_s16_def mult.right_neutral c_trunc_of_int)
  also have "\<dots> = word_of_int (sint x)"
    using b by (simp only: min_absorb2 max_absorb2)
  finally show ?thesis by simp
qed

lemma snd_pcm_scale_s16le_unit: "snd_pcm_scale_s16le buffer samples channels 1 1 = buffer"
proof -
  have "map (\<lambda>(i, x). if i < samples then scale_s16 (if channels = 1 \<or> even i then 1 else 1) x else x)
          (enumerate n buffer) = buffer" for n
    by (induction buffer arbitrary: n) (simp_all add: scale_s16_unit)
  then show ?thesis by (simp add: snd_pcm_scale_s16le_def)
qed

text \<open>
  C6. With both channels at volume 127 and neither muted, scaling leaves every sample of
  every buffer as it was, whatever the number of samples and of channels. Both factors are
  \<open>10 powr 0 = 1\<close>. (In the code the factors are \<^verbatim>\<open>double\<close>s; at volume 127 the
  floating-point computation is exact, \<^verbatim>\<open>64.0 * 127 / 127 = 64.0\<close> and \<^verbatim>\<open>pow(10, 0.0) = 1.0\<close>,
  so the real factor is the one the code computes.)
\<close>

theorem io_thread_scale_pcm_full_volume:
  assumes "\<not> ch1_muted t" and "\<not> ch2_muted t"
    and "ch1_volume t = 127" and "ch2_volume t = 127"
  shows "io_thread_scale_pcm t buffer samples channels = buffer"
  using assms by (simp add: io_thread_scale_pcm_def snd_pcm_scale_s16le_unit)

theorem io_thread_scale_pcm_full_volume_witness:
  "io_thread_scale_pcm \<lparr>ch1_muted = False, ch1_volume = 127, ch2_muted = False, ch2_volume = 127\<rparr>
     [1, - 2, 32767, - 32768, 300] 4 2 = [1, - 2, 32767, - 32768, 300]"
  using io_thread_scale_pcm_full_volume
          [of "\<lparr>ch1_muted = False, ch1_volume = 127, ch2_muted = False, ch2_volume = 127\<rparr>"
              "[1, - 2, 32767, - 32768, 300]" 4 2]
  by simp

lemma scale_muted: "scale_s16 0 x = 0"
  by (simp add: scale_s16_def c_trunc_def)


subsection \<open>The source threads: what an iteration leaves unchanged\<close>

lemma seqs_from_0 [simp]: "seqs_from s 0 = []"
  by (simp add: seqs_from_def)

lemma seqs_from_Suc: "seqs_from s (Suc n) = seqs_from s n @ [s + of_nat n]"
  by (simp add: seqs_from_def)

lemma seqs_from_add: "seqs_from s (a + b) = seqs_from s a @ seqs_from (s + of_nat a) b"
proof (induction b)
  case 0
  then show ?case by simp
next
  case (Suc b)
  have "seqs_from s (a + Suc b) = seqs_from s (a + b) @ [s + of_nat (a + b)]"
    by (simp add: seqs_from_Suc)
  also have "\<dots> = seqs_from s a @ seqs_from (s + of_nat a) (Suc b)"
    using Suc by (simp add: seqs_from_Suc add.assoc)
  finally show ?case .
qed

lemma length_seqs_from [simp]: "length (seqs_from s n) = n"
  by (simp add: seqs_from_def)

lemma seq_adv_refl: "seq_adv st st"
  by (simp add: seq_adv_def)

lemma seq_adv_trans:
  assumes "seq_adv a b" and "seq_adv b c"
  shows "seq_adv a c"
proof -
  from assms(1) obtain n1 where 1: "sent b = sent a @ n1"
    "map (pkt_seq \<circ> fst) n1 = seqs_from (seq_number a + 1) (length n1)"
    "seq_number b = seq_number a + of_nat (length n1)"
    by (auto simp: seq_adv_def)
  from assms(2) obtain n2 where 2: "sent c = sent b @ n2"
    "map (pkt_seq \<circ> fst) n2 = seqs_from (seq_number b + 1) (length n2)"
    "seq_number c = seq_number b + of_nat (length n2)"
    by (auto simp: seq_adv_def)
  have "sent c = sent a @ (n1 @ n2)" using 1 2 by simp
  moreover have "map (pkt_seq \<circ> fst) (n1 @ n2) = seqs_from (seq_number a + 1) (length (n1 @ n2))"
    using 1 2 by (simp add: seqs_from_add add.commute add.left_commute)
  moreover have "seq_number c = seq_number a + of_nat (length (n1 @ n2))"
    using 1 2 by simp
  ultimately show ?thesis unfolding seq_adv_def by blast
qed

lemma seq_adv_emit:
  assumes "sent st' = sent st @ [(p, w)]" and "pkt_seq p = seq_number st + 1"
    and "seq_number st' = seq_number st + 1"
  shows "seq_adv st st'"
  unfolding seq_adv_def using assms
  by (intro exI [of _ "[(p, w)]"]) (simp add: seqs_from_def)

lemma seq_adv_same: "rtp_same st st' \<Longrightarrow> seq_adv st st'"
  by (simp add: seq_adv_def rtp_same_def)

lemma io_read_dispatch_same:
  "io_read_dispatch cfg ev st = r \<Longrightarrow>
     (case r of D_Continue s \<Rightarrow> rtp_same st s | D_Exit s \<Rightarrow> rtp_same st s
      | D_Samples n s \<Rightarrow> rtp_same st s | D_Stuck \<Rightarrow> True)"
  by (auto simp: io_read_dispatch_def rtp_same_def Let_def split: option.splits prod.splits if_splits)

lemma io_poll_dispatch_same:
  "io_poll_dispatch cfg ev st = r \<Longrightarrow>
     (case r of D_Continue s \<Rightarrow> rtp_same st s | D_Exit s \<Rightarrow> rtp_same st s
      | D_Samples n s \<Rightarrow> rtp_same st s | D_Stuck \<Rightarrow> True)"
  unfolding io_poll_dispatch_def
  by (cases "ev_poll ev")
     (auto simp: rtp_same_def Let_def dest: io_read_dispatch_same
           split: option.splits ba_transport_signal.splits if_splits dispatch.splits)


lemma ends_in_simps [simp]:
  "ends_in (Continue s) st' \<longleftrightarrow> s = st'"
  "ends_in (Exit s) st' \<longleftrightarrow> s = st'"
  "\<not> ends_in Stuck st'"
  by (auto simp: ends_in_def)

text \<open>A relation that every iteration establishes between the states before and after it
  holds across a run: \<open>R\<close> while the thread keeps looping, \<open>Q\<close> for the state in which it
  leaves the loop.\<close>

lemma io_run_rel:
  assumes cont: "\<And>e s s'. P e \<Longrightarrow> body e s = Continue s' \<Longrightarrow> R s s'"
    and exit: "\<And>e s s'. P e \<Longrightarrow> body e s = Exit s' \<Longrightarrow> Q s s'"
    and refl: "\<And>s. R s s"
    and trans: "\<And>a b c. R a b \<Longrightarrow> R b c \<Longrightarrow> R a c"
    and transQ: "\<And>a b c. R a b \<Longrightarrow> Q b c \<Longrightarrow> Q a c"
  shows "\<forall>e \<in> set evs. P e \<Longrightarrow>
         (io_run body evs st = Continue st' \<longrightarrow> R st st') \<and>
         (io_run body evs st = Exit st' \<longrightarrow> Q st st')"
proof (induction evs arbitrary: st)
  case Nil
  then show ?case by (simp add: refl)
next
  case (Cons e es)
  then have Pe: "P e" and IH: "\<And>s. (io_run body es s = Continue st' \<longrightarrow> R s st') \<and>
         (io_run body es s = Exit st' \<longrightarrow> Q s st')"
    by simp_all
  show ?case
  proof (cases "body e st")
    case (Continue s)
    then have "R st s" by (rule cont [OF Pe])
    with IH [of s] Continue show ?thesis
      by (auto intro: trans transQ)
  next
    case (Exit s)
    then have "Q st s" by (rule exit [OF Pe])
    with Exit show ?thesis by auto
  next
    case Stuck
    then show ?thesis by simp
  qed
qed

text \<open>The same for one iteration, from its second half: the first half changes nothing
  the relations look at.\<close>

lemma io_step_rel:
  assumes same: "\<And>s s'. rtp_same s s' \<Longrightarrow> R s s'"
    and sameQ: "\<And>s s'. rtp_same s s' \<Longrightarrow> Q s s'"
    and trans: "\<And>a b c. R a b \<Longrightarrow> R b c \<Longrightarrow> R a c"
    and transQ: "\<And>a b c. R a b \<Longrightarrow> Q b c \<Longrightarrow> Q a c"
    and data_cont: "\<And>n s s'. data n s = Continue s' \<Longrightarrow> R s s'"
    and data_exit: "\<And>n s s'. data n s = Exit s' \<Longrightarrow> Q s s'"
  shows "((case io_poll_dispatch cfg ev st of
              D_Continue s \<Rightarrow> Continue s | D_Exit s \<Rightarrow> Exit s
            | D_Samples n s \<Rightarrow> data n s | D_Stuck \<Rightarrow> Stuck) = Continue st' \<longrightarrow> R st st') \<and>
         ((case io_poll_dispatch cfg ev st of
              D_Continue s \<Rightarrow> Continue s | D_Exit s \<Rightarrow> Exit s
            | D_Samples n s \<Rightarrow> data n s | D_Stuck \<Rightarrow> Stuck) = Exit st' \<longrightarrow> Q st st')"
proof -
  note d = io_poll_dispatch_same [OF refl, where cfg = cfg and ev = ev and st = st]
  show ?thesis
  proof (cases "io_poll_dispatch cfg ev st")
    case (D_Continue s)
    with d show ?thesis by (auto simp: same)
  next
    case (D_Exit s)
    with d show ?thesis by (auto simp: sameQ)
  next
    case (D_Samples n s)
    with d have "R st s" by (simp add: same)
    with D_Samples show ?thesis
      by (auto intro: trans transQ data_cont data_exit)
  next
    case D_Stuck
    then show ?thesis by simp
  qed
qed

subsection \<open>Sequence numbers\<close>

lemma seq_adv_write:
  assumes "seq_number st1 = seq_number st + 1" and "rtp_seq st1 = seq_number st + 1"
    and "sent st1 = sent st"
  shows "seq_adv st (io_thread_write_bt len frames w st1)"
  using assms
  by (intro seq_adv_emit [where p = "rtp_packet_of st1 len frames" and w = w])
     (simp_all add: io_thread_write_bt_def rtp_packet_of_def)

lemma seq_adv_upd:
  "seq_adv (st\<lparr>rtp_ts := x\<rparr>) b = seq_adv st b"
  "seq_adv (st\<lparr>pcm_len := y\<rparr>) b = seq_adv st b"
  "seq_adv (st\<lparr>asrs_frames := a\<rparr>) b = seq_adv st b"
  "seq_adv (st\<lparr>timestamp := t\<rparr>) b = seq_adv st b"
  by (simp_all add: seq_adv_def)

lemma sbc_data_seq_adv: "ends_in (sbc_data cfg n codec st) st' \<Longrightarrow> seq_adv st st'"
  unfolding sbc_data_def Let_def
  by (auto simp: io_thread_write_bt_def rtp_packet_of_def split: option.splits prod.splits if_splits
           intro!: seq_adv_emit)

lemma sbc_run_seq_adv:
  assumes "ends_in (io_run (sbc_step cfg) evs st) st'"
  shows "seq_adv st st'"
proof -
  have data: "seq_adv s s'"
    if "sbc_data cfg n c s = Continue s' \<or> sbc_data cfg n c s = Exit s'" for n c s s'
    using that by (intro sbc_data_seq_adv [of cfg n c]) (simp add: ends_in_def)
  have step: "(sbc_step cfg ev s = Continue s' \<longrightarrow> seq_adv s s') \<and>
              (sbc_step cfg ev s = Exit s' \<longrightarrow> seq_adv s s')" for ev s s'
    unfolding sbc_step_def
    by (rule io_step_rel [where data = "\<lambda>n. sbc_data cfg n (ev_codec ev)"])
       (auto intro: seq_adv_same seq_adv_trans data)
  have "(io_run (sbc_step cfg) evs st = Continue st' \<longrightarrow> seq_adv st st') \<and>
        (io_run (sbc_step cfg) evs st = Exit st' \<longrightarrow> seq_adv st st')"
    by (rule io_run_rel [where P = "\<lambda>_. True"])
       (auto simp: step intro: seq_adv_refl seq_adv_trans)
  with assms show ?thesis by (auto simp: ends_in_def)
qed

lemma aac_fragments_seq_adv:
  "ends_in (aac_fragments m ws plen frames st) st' \<Longrightarrow> seq_adv st st'"
proof (induction ws arbitrary: plen st)
  case Nil
  then show ?case by simp
next
  case (Cons w ws)
  let ?st2 = "io_thread_write_bt (RTP_HEADER_LEN + (if plen > m then m else plen)) frames w
                (st\<lparr>rtp_markbit := (plen \<le> m), seq_number := seq_number st + 1,
                     rtp_seq := seq_number st + 1\<rparr>)"
  have one: "seq_adv st ?st2"
    by (rule seq_adv_write) simp_all
  show ?case
  proof (cases w)
    case (WrFail e)
    with Cons.prems have "st' = ?st2"
      by (simp add: Let_def split: if_splits)
    with one show ?thesis by simp
  next
    case (WrBytes n)
    show ?thesis
    proof (cases "size_sub plen (int n - int RTP_HEADER_LEN) = 0")
      case True
      with WrBytes Cons.prems have "st' = ?st2" by (simp add: Let_def)
      with one show ?thesis by simp
    next
      case False
      with WrBytes Cons.prems
      have "ends_in (aac_fragments m ws (size_sub plen (int n - int RTP_HEADER_LEN)) frames ?st2) st'"
        by (simp add: Let_def)
      then have "seq_adv ?st2 st'" by (rule Cons.IH)
      with one show ?thesis by (rule seq_adv_trans)
    qed
  qed
qed

lemma aac_encode_loop_seq_adv:
  "ends_in (aac_encode_loop cfg encs st) st' \<Longrightarrow> seq_adv st st'"
proof (induction encs arbitrary: st)
  case Nil
  then show ?case by (simp add: seq_adv_refl split: if_splits)
next
  case (Cons e es)
  let ?frag = "if numOutBytes e > 0
                  then aac_fragments (size_sub (cfg_mtu_write cfg) (int RTP_HEADER_LEN))
                         (aac_writes e) (numOutBytes e) (numInSamples e div cfg_channels cfg)
                         (st\<lparr>rtp_ts := timestamp st\<rparr>)
                  else Continue st"
  have frag: "seq_adv st s" if "ends_in ?frag s" for s
  proof (cases "numOutBytes e > 0")
    case True
    with that have "seq_adv (st\<lparr>rtp_ts := timestamp st\<rparr>) s"
      by (simp add: aac_fragments_seq_adv)
    then show ?thesis by (simp add: seq_adv_upd)
  next
    case False
    with that show ?thesis by (simp add: seq_adv_refl)
  qed
  show ?case
  proof (cases "pcm_len st > 0")
    case False
    with Cons.prems show ?thesis by (simp add: seq_adv_refl)
  next
    case True
    show ?thesis
    proof (cases ?frag)
      case Stuck
      with True Cons.prems show ?thesis by (simp split: if_splits)
    next
      case (Exit s)
      with True Cons.prems have "st' = s" by (simp split: if_splits)
      with Exit frag [of s] show ?thesis by simp
    next
      case (Continue s)
      let ?s1 = "s\<lparr>asrs_frames := asrs_frames s + numInSamples e div cfg_channels cfg,
                    timestamp := timestamp s + of_nat ((numInSamples e div cfg_channels cfg * 10000 mod 2 ^ 32) div cfg_samplerate cfg),
                    pcm_len := pcm_len s - numInSamples e\<rparr>"
      from Continue True Cons.prems have "ends_in (aac_encode_loop cfg es ?s1) st'"
        by (simp add: Let_def split: if_splits)
      then have "seq_adv ?s1 st'" by (rule Cons.IH)
      then have "seq_adv s st'" by (simp add: seq_adv_upd)
      moreover from Continue frag [of s] have "seq_adv st s" by simp
      ultimately show ?thesis by (rule seq_adv_trans [rotated])
    qed
  qed
qed

lemma aac_run_seq_adv:
  assumes "ends_in (io_run (aac_step cfg) evs st) st'"
  shows "seq_adv st st'"
proof -
  have data: "seq_adv s s'"
    if "aac_encode_loop cfg encs (s\<lparr>pcm_len := pcm_len s + n\<rparr>) = Continue s' \<or>
        aac_encode_loop cfg encs (s\<lparr>pcm_len := pcm_len s + n\<rparr>) = Exit s'" for encs n s s'
    using aac_encode_loop_seq_adv [of cfg encs "s\<lparr>pcm_len := pcm_len s + n\<rparr>" s'] that
    by (simp add: seq_adv_upd ends_in_def)
  have step: "(aac_step cfg ev s = Continue s' \<longrightarrow> seq_adv s s') \<and>
              (aac_step cfg ev s = Exit s' \<longrightarrow> seq_adv s s')" for ev s s'
    unfolding aac_step_def
    by (rule io_step_rel [where data = "\<lambda>n s. aac_encode_loop cfg (ev_codec ev) (s\<lparr>pcm_len := pcm_len s + n\<rparr>)"])
       (auto intro: seq_adv_same seq_adv_trans data)
  have "(io_run (aac_step cfg) evs st = Continue st' \<longrightarrow> seq_adv st st') \<and>
        (io_run (aac_step cfg) evs st = Exit st' \<longrightarrow> seq_adv st st')"
    by (rule io_run_rel [where P = "\<lambda>_. True"])
       (auto simp: step intro: seq_adv_refl seq_adv_trans)
  with assms show ?thesis by (auto simp: ends_in_def)
qed


lemma ldac_adv_refl: "ldac_adv st st"
  by (simp add: ldac_adv_def)

lemma ldac_adv_keep:
  "sent b = sent a \<Longrightarrow> seq_number b = seq_number a \<Longrightarrow> rtp_seq b = rtp_seq a \<Longrightarrow> ldac_adv a b"
  by (simp add: ldac_adv_def)

lemma ldac_adv_same: "rtp_same st st' \<Longrightarrow> ldac_adv st st'"
  by (simp add: ldac_adv_keep rtp_same_def)

lemma ldac_adv_sent: "ldac_adv a b \<Longrightarrow> ldac_sent a b"
  by (auto simp: ldac_adv_def ldac_sent_def)

lemma ldac_adv_trans:
  assumes "ldac_adv a b" and "ldac_adv b c"
  shows "ldac_adv a c"
  unfolding ldac_adv_def
proof
  assume inv: "rtp_seq a = seq_number a"
  with assms(1) obtain n1 where 1: "sent b = sent a @ n1"
    "map (pkt_seq \<circ> fst) n1 = seqs_from (seq_number a) (length n1)"
    "seq_number b = seq_number a + of_nat (length n1)" "rtp_seq b = seq_number b"
    by (auto simp: ldac_adv_def)
  with assms(2) obtain n2 where 2: "sent c = sent b @ n2"
    "map (pkt_seq \<circ> fst) n2 = seqs_from (seq_number b) (length n2)"
    "seq_number c = seq_number b + of_nat (length n2)" "rtp_seq c = seq_number c"
    by (auto simp: ldac_adv_def)
  have "sent c = sent a @ (n1 @ n2)" using 1 2 by simp
  moreover have "map (pkt_seq \<circ> fst) (n1 @ n2) = seqs_from (seq_number a) (length (n1 @ n2))"
    using 1 2 by (simp add: seqs_from_add)
  moreover have "seq_number c = seq_number a + of_nat (length (n1 @ n2))"
    using 1 2 by simp
  ultimately show "\<exists>new. sent c = sent a @ new \<and>
      map (pkt_seq \<circ> fst) new = seqs_from (seq_number a) (length new) \<and>
      seq_number c = seq_number a + of_nat (length new) \<and> rtp_seq c = seq_number c"
    using 2(4) by blast
qed

lemma ldac_sent_trans:
  assumes "ldac_adv a b" and "ldac_sent b c"
  shows "ldac_sent a c"
  unfolding ldac_sent_def
proof
  assume inv: "rtp_seq a = seq_number a"
  with assms(1) obtain n1 where 1: "sent b = sent a @ n1"
    "map (pkt_seq \<circ> fst) n1 = seqs_from (seq_number a) (length n1)"
    "seq_number b = seq_number a + of_nat (length n1)" "rtp_seq b = seq_number b"
    by (auto simp: ldac_adv_def)
  with assms(2) obtain n2 where 2: "sent c = sent b @ n2"
    "map (pkt_seq \<circ> fst) n2 = seqs_from (seq_number b) (length n2)"
    by (auto simp: ldac_sent_def)
  have "sent c = sent a @ (n1 @ n2)" using 1 2 by simp
  moreover have "map (pkt_seq \<circ> fst) (n1 @ n2) = seqs_from (seq_number a) (length (n1 @ n2))"
    using 1 2 by (simp add: seqs_from_add)
  ultimately show "\<exists>new. sent c = sent a @ new \<and>
      map (pkt_seq \<circ> fst) new = seqs_from (seq_number a) (length new)"
    by blast
qed

lemma ldac_adv_emit:
  assumes "sent b = sent a @ [(p, w)]" and "pkt_seq p = rtp_seq a"
    and "seq_number b = seq_number a + 1" and "rtp_seq b = seq_number b"
  shows "ldac_adv a b"
  unfolding ldac_adv_def using assms
  by (intro impI exI [of _ "[(p, w)]"]) (simp add: seqs_from_def)

lemma ldac_sent_emit:
  assumes "sent b = sent a @ [(p, w)]" and "pkt_seq p = rtp_seq a"
  shows "ldac_sent a b"
  unfolding ldac_sent_def using assms
  by (intro impI exI [of _ "[(p, w)]"]) (simp add: seqs_from_def)

lemma ldac_encode_loop_seq:
  "(ldac_encode_loop cfg encs il st = Continue st' \<longrightarrow> ldac_adv st st') \<and>
   (ldac_encode_loop cfg encs il st = Exit st' \<longrightarrow> ldac_sent st st')"
proof (induction encs arbitrary: il st)
  case Nil
  then show ?case by (auto simp: ldac_adv_keep)
next
  case (Cons e es)
  show ?case
  proof (cases "il \<ge> ldac_pcm_samples cfg")
    case False
    then show ?thesis by (auto simp: ldac_adv_keep)
  next
    case True
    show ?thesis
    proof (cases e)
      case LdacFail
      with True show ?thesis by (auto simp: ldac_adv_keep)
    next
      case (LdacEncoded len enc fc w)
      let ?frames = "len div 2"
      let ?st1 = "st\<lparr>rtp_frame_count := fc mod 16\<rparr>"
      show ?thesis
      proof (cases "enc = 0")
        case True
        let ?st3 = "?st1\<lparr>asrs_frames := asrs_frames ?st1 + ?frames div cfg_channels cfg,
                          ts_frames := ts_frames ?st1 + ?frames\<rparr>"
        have a: "ldac_adv st ?st3" by (simp add: ldac_adv_keep)
        have eq: "ldac_encode_loop cfg (e # es) il st =
              (if il < ?frames \<or> cfg_channels cfg = 0 then Stuck
               else ldac_encode_loop cfg es (il - ?frames) ?st3)"
          using \<open>il \<ge> ldac_pcm_samples cfg\<close> LdacEncoded True by (simp add: Let_def)
        from Cons.IH [of "il - ?frames" ?st3] a show ?thesis
          unfolding eq by (auto intro: ldac_adv_trans ldac_sent_trans)
      next
        case False
        let ?st2 = "io_thread_write_bt (RTP_HEADER_LEN + RTP_MEDIA_HEADER_LEN + enc)
                      ((ts_frames ?st1 + ?frames) div cfg_channels cfg) w ?st1"
        let ?st3 = "?st2\<lparr>asrs_frames := asrs_frames ?st2 + ?frames div cfg_channels cfg,
                          ts_frames := ts_frames ?st2 + ?frames\<rparr>"
        let ?ts1 = "timestamp ?st3 + of_nat (ts_frames ?st3 div cfg_channels cfg * 10000
                                        div cfg_samplerate cfg)"
        let ?st4 = "?st3\<lparr>timestamp := ?ts1, rtp_ts := ?ts1,
                          seq_number := seq_number ?st3 + 1, rtp_seq := seq_number ?st3 + 1,
                          ts_frames := 0\<rparr>"
        have s: "ldac_sent st ?st2"
          by (rule ldac_sent_emit [where p = "rtp_packet_of ?st1 (RTP_HEADER_LEN + RTP_MEDIA_HEADER_LEN + enc)
                      ((ts_frames ?st1 + ?frames) div cfg_channels cfg)" and w = w])
             (simp_all add: io_thread_write_bt_def rtp_packet_of_def)
        have a: "ldac_adv st ?st4"
          by (rule ldac_adv_emit [where p = "rtp_packet_of ?st1 (RTP_HEADER_LEN + RTP_MEDIA_HEADER_LEN + enc)
                      ((ts_frames ?st1 + ?frames) div cfg_channels cfg)" and w = w])
             (simp_all add: io_thread_write_bt_def rtp_packet_of_def)
        have eq: "ldac_encode_loop cfg (e # es) il st =
              (if il < ?frames then Stuck
               else if bt_disconnected w then Exit ?st2
               else if cfg_channels cfg = 0 \<or> cfg_samplerate cfg = 0 then Stuck
               else ldac_encode_loop cfg es (il - ?frames) ?st4)"
          using \<open>il \<ge> ldac_pcm_samples cfg\<close> LdacEncoded False by (simp add: Let_def)
        from Cons.IH [of "il - ?frames" ?st4] a s show ?thesis
          unfolding eq by (auto intro: ldac_adv_trans ldac_sent_trans)
      qed
    qed
  qed
qed


lemma ldac_run_seq:
  "(io_run (ldac_step cfg) evs st = Continue st' \<longrightarrow> ldac_adv st st') \<and>
   (io_run (ldac_step cfg) evs st = Exit st' \<longrightarrow> ldac_sent st st')"
proof -
  have step: "(ldac_step cfg ev s = Continue s' \<longrightarrow> ldac_adv s s') \<and>
              (ldac_step cfg ev s = Exit s' \<longrightarrow> ldac_sent s s')" for ev s s'
    unfolding ldac_step_def
    by (rule io_step_rel [where data = "\<lambda>n s. ldac_encode_loop cfg (ev_codec ev) (pcm_len s + n) s"])
       (auto intro: ldac_adv_same ldac_adv_sent ldac_adv_trans ldac_sent_trans
             simp: ldac_encode_loop_seq)
  show ?thesis
    by (rule io_run_rel [where P = "\<lambda>_. True"])
       (auto simp: step intro: ldac_adv_refl ldac_adv_trans ldac_sent_trans)
qed

lemma seq_adv_from_init:
  "seq_adv (io_thread_init s ts p) st \<Longrightarrow>
     map (pkt_seq \<circ> fst) (sent st) = seqs_from (s + 1) (length (sent st))"
  by (auto simp: seq_adv_def io_thread_init_def)

lemma ldac_sent_from_init:
  "ldac_sent (io_thread_init s ts p) st \<Longrightarrow>
     map (pkt_seq \<circ> fst) (sent st) = seqs_from s (length (sent st))"
  by (auto simp: ldac_sent_def io_thread_init_def)

lemma written_all_ok:
  "list_all (wr_ok \<circ> snd) (sent st) \<Longrightarrow> written st = map fst (sent st)"
  by (simp add: written_def list_all_iff)


lemma written_seqs:
  assumes "map (pkt_seq \<circ> fst) (sent st) = seqs_from s0 (length (sent st))"
    and "list_all (wr_ok \<circ> snd) (sent st)"
  shows "map pkt_seq (written st) = seqs_from s0 (length (written st))"
  using assms by (simp add: written_all_ok)


text \<open>
  C3 (as amended). A thread starts with a random sequence number \<open>s\<close>. However its run
  goes (signals, timeouts, reads, whatever the encoder and the socket answer), the packets
  it has passed to the BT socket write by the time it is back at the top of its loop, or
  has left it, carry the numbers \<open>s + 1, s + 2, \<dots>\<close> (SBC and AAC, which count before they
  write) or \<open>s, s + 1, \<dots>\<close> (LDAC, which counts after it has written), modulo \<open>2^16\<close>, in
  the order of the writes. When no write has failed, these are the packets written to the
  socket.
\<close>

theorem rtp_sequence_numbers:
  "(ends_in (io_run (sbc_step cfg) evs_sbc (io_thread_init s ts p)) st \<longrightarrow>
      map (pkt_seq \<circ> fst) (sent st) = seqs_from (s + 1) (length (sent st)) \<and>
      (list_all (wr_ok \<circ> snd) (sent st) \<longrightarrow>
         map pkt_seq (written st) = seqs_from (s + 1) (length (written st))))
 \<and> (ends_in (io_run (aac_step cfg) evs_aac (io_thread_init s ts p)) st \<longrightarrow>
      map (pkt_seq \<circ> fst) (sent st) = seqs_from (s + 1) (length (sent st)) \<and>
      (list_all (wr_ok \<circ> snd) (sent st) \<longrightarrow>
         map pkt_seq (written st) = seqs_from (s + 1) (length (written st))))
 \<and> (ends_in (io_run (ldac_step cfg) evs_ldac (io_thread_init s ts p)) st \<longrightarrow>
      map (pkt_seq \<circ> fst) (sent st) = seqs_from s (length (sent st)) \<and>
      (list_all (wr_ok \<circ> snd) (sent st) \<longrightarrow>
         map pkt_seq (written st) = seqs_from s (length (written st))))"
proof -
  have sbc: "map (pkt_seq \<circ> fst) (sent st) = seqs_from (s + 1) (length (sent st))"
    if "ends_in (io_run (sbc_step cfg) evs_sbc (io_thread_init s ts p)) st"
    using that by (intro seq_adv_from_init sbc_run_seq_adv)
  have aac: "map (pkt_seq \<circ> fst) (sent st) = seqs_from (s + 1) (length (sent st))"
    if "ends_in (io_run (aac_step cfg) evs_aac (io_thread_init s ts p)) st"
    using that by (intro seq_adv_from_init aac_run_seq_adv)
  have ldac: "map (pkt_seq \<circ> fst) (sent st) = seqs_from s (length (sent st))"
    if "ends_in (io_run (ldac_step cfg) evs_ldac (io_thread_init s ts p)) st"
  proof -
    from that have "ldac_sent (io_thread_init s ts p) st"
      using ldac_run_seq [of cfg evs_ldac "io_thread_init s ts p" st]
      by (auto simp: ends_in_def intro: ldac_adv_sent)
    then show ?thesis by (rule ldac_sent_from_init)
  qed
  from sbc aac ldac show ?thesis
    by (intro conjI impI written_seqs) assumption+
qed


text \<open>The example runs, evaluated.\<close>

lemmas io_defs = io_poll_dispatch_def io_read_dispatch_def io_thread_read_pcm_def
  io_thread_write_bt_def rtp_packet_of_def bt_disconnected_def io_thread_init_def
  example_read_def example_pcm_def RTP_HEADER_LEN_def RTP_MEDIA_HEADER_LEN_def size_sub_def
  Let_def

lemma sbc_example_cfg_eq:
  "sbc_example_cfg = \<lparr>cfg_channels = 2, cfg_samplerate = 44100, cfg_mtu_write = 679,
    cfg_keep_alive = 0, cfg_pcm_size = 1280, cfg_bt_size = 679,
    sbc_pcm_samples = 256, sbc_frame_len = 119, ldac_pcm_samples = 0\<rparr>"
  by (simp add: sbc_example_cfg_def sbc_config_def io_defs)

lemma sbc_example_run_end:
  "io_run (sbc_step sbc_example_cfg) sbc_example_run (io_thread_init 65534 100 example_pcm) =
     Continue sbc_example_end"
  by (simp add: sbc_example_cfg_eq sbc_example_run_def sbc_example_end_def sbc_step_def
      sbc_data_def io_defs)


lemma aac_example_run_end:
  "io_run (aac_step aac_example_cfg) aac_example_run (io_thread_init 65534 100 example_pcm) =
     Continue aac_example_end"
  by (simp add: aac_example_cfg_def aac_example_run_def aac_example_end_def aac_step_def io_defs)

lemma ldac_example_run_end:
  "io_run (ldac_step ldac_example_cfg) ldac_example_run (io_thread_init 65534 100 example_pcm) =
     Continue ldac_example_end"
  by (simp add: ldac_example_cfg_def ldac_example_run_def ldac_example_end_def ldac_step_def io_defs)

lemma sbc_steady_run_end:
  "io_run (sbc_step sbc_example_cfg) sbc_steady_run (io_thread_init 65534 100 example_pcm) =
     Continue sbc_steady_end"
  by (simp add: sbc_example_cfg_eq sbc_steady_run_def sbc_steady_end_def sbc_step_def
      sbc_data_def io_defs)





theorem rtp_sequence_numbers_witness:
  "ends_in (io_run (sbc_step sbc_example_cfg) sbc_steady_run
              (io_thread_init 65534 100 example_pcm)) sbc_steady_end
   \<and> list_all (wr_ok \<circ> snd) (sent sbc_steady_end)
   \<and> map (pkt_seq \<circ> fst) (sent sbc_steady_end) = [65535, 0, 1]
   \<and> map pkt_seq (written sbc_steady_end) = [65535, 0, 1]
   \<and> ends_in (io_run (aac_step aac_example_cfg) aac_example_run
              (io_thread_init 65534 100 example_pcm)) aac_example_end
   \<and> list_all (wr_ok \<circ> snd) (sent aac_example_end)
   \<and> map (pkt_seq \<circ> fst) (sent aac_example_end) = [65535, 0, 1, 2]
   \<and> map pkt_seq (written aac_example_end) = [65535, 0, 1, 2]
   \<and> ends_in (io_run (ldac_step ldac_example_cfg) ldac_example_run
              (io_thread_init 65534 100 example_pcm)) ldac_example_end
   \<and> list_all (wr_ok \<circ> snd) (sent ldac_example_end)
   \<and> map (pkt_seq \<circ> fst) (sent ldac_example_end) = [65534, 65535]
   \<and> map pkt_seq (written ldac_example_end) = [65534, 65535]"
proof -
  have a: "ends_in (io_run (sbc_step sbc_example_cfg) sbc_steady_run
              (io_thread_init 65534 100 example_pcm)) sbc_steady_end"
    by (simp add: sbc_steady_run_end)
  have b: "ends_in (io_run (aac_step aac_example_cfg) aac_example_run
              (io_thread_init 65534 100 example_pcm)) aac_example_end"
    by (simp add: aac_example_run_end)
  have c: "ends_in (io_run (ldac_step ldac_example_cfg) ldac_example_run
              (io_thread_init 65534 100 example_pcm)) ldac_example_end"
    by (simp add: ldac_example_run_end)
  have oa: "list_all (wr_ok \<circ> snd) (sent sbc_steady_end)"
    and ob: "list_all (wr_ok \<circ> snd) (sent aac_example_end)"
    and oc: "list_all (wr_ok \<circ> snd) (sent ldac_example_end)"
    by (simp_all add: sbc_steady_end_def aac_example_end_def ldac_example_end_def wr_ok_def)
  have la: "length (sent sbc_steady_end) = Suc (Suc (Suc 0))"
    "length (written sbc_steady_end) = Suc (Suc (Suc 0))"
    and lb: "length (sent aac_example_end) = Suc (Suc (Suc (Suc 0)))"
    "length (written aac_example_end) = Suc (Suc (Suc (Suc 0)))"
    and lc: "length (sent ldac_example_end) = Suc (Suc 0)"
    "length (written ldac_example_end) = Suc (Suc 0)"
    by (simp_all add: sbc_steady_end_def aac_example_end_def ldac_example_end_def
        written_def wr_ok_def)
  from rtp_sequence_numbers [where cfg = sbc_example_cfg and evs_sbc = sbc_steady_run
         and s = 65534 and ts = 100 and p = example_pcm and st = sbc_steady_end] a oa
  have 1: "map (pkt_seq \<circ> fst) (sent sbc_steady_end) = [65535, 0, 1]"
    "map pkt_seq (written sbc_steady_end) = [65535, 0, 1]"
    by (simp_all add: la seqs_from_Suc)
  from rtp_sequence_numbers [where cfg = aac_example_cfg and evs_aac = aac_example_run
         and s = 65534 and ts = 100 and p = example_pcm and st = aac_example_end] b ob
  have 2: "map (pkt_seq \<circ> fst) (sent aac_example_end) = [65535, 0, 1, 2]"
    "map pkt_seq (written aac_example_end) = [65535, 0, 1, 2]"
    by (simp_all add: lb seqs_from_Suc)
  from rtp_sequence_numbers [where cfg = ldac_example_cfg and evs_ldac = ldac_example_run
         and s = 65534 and ts = 100 and p = example_pcm and st = ldac_example_end] c oc
  have 3: "map (pkt_seq \<circ> fst) (sent ldac_example_end) = [65534, 65535]"
    "map pkt_seq (written ldac_example_end) = [65534, 65535]"
    by (simp_all add: lc seqs_from_Suc)
  show ?thesis
    by (intro conjI a b c oa ob oc 1 2 3)
qed


text \<open>
  The claim as first stated speaks of the packets written to the socket. A write that
  fails without a disconnect is logged and the loop goes on with the number used up: in
  the SBC example run the second write fails, and the packets written carry 65535 and
  then 1.
\<close>

theorem rtp_sequence_numbers_counterexample:
  "io_run (sbc_step sbc_example_cfg) sbc_example_run (io_thread_init 65534 100 example_pcm) =
     Continue sbc_example_end
   \<and> map pkt_seq (written sbc_example_end) = [65535, 1]
   \<and> (1 :: 16 word) \<noteq> 65535 + 1"
  by (simp add: sbc_example_run_end) (simp add: sbc_example_end_def written_def wr_ok_def)


subsection \<open>The SBC source: one packet for every read\<close>









subsection \<open>Timestamps\<close>




















subsection \<open>Fragmentation of an AAC payload\<close>




lemma aac_chunks_length: "length (aac_chunks m payload_len) = Suc ((payload_len - 1) div m)"
  by (simp add: aac_chunks_def Let_def)

lemma aac_chunks_sum:
  assumes "0 < payload_len"
  shows "sum_list (aac_chunks m payload_len) = payload_len"
proof -
  define k where "k = (payload_len - 1) div m"
  have "k * m \<le> payload_len - 1" unfolding k_def by simp
  then have "k * m + (payload_len - k * m) = payload_len" using assms by simp
  moreover have "aac_chunks m payload_len = replicate k m @ [payload_len - k * m]"
    unfolding aac_chunks_def k_def Let_def ..
  ultimately show ?thesis by (simp add: sum_list_replicate)
qed











subsection \<open>Draining\<close>

text \<open>The discrete part of the drain: a \<^verbatim>\<open>TRANSPORT_PCM_SYNC\<close> signal sets the poll timeout
  to 100 ms and nothing else (line 476); a poll that times out signals \<^verbatim>\<open>drained\<close> once,
  sets the timeout back to -1 and leaves the loop when the PCM is closed (lines 445-453).
  How long the thread takes to reach such a poll is not a property of these definitions,
  which carry no clock.\<close>

lemma io_poll_dispatch_sync:
  "io_poll_dispatch cfg (ev\<lparr>ev_poll := PollSignal (Some TRANSPORT_PCM_SYNC)\<rparr>) st =
     D_Continue (st\<lparr>poll_timeout := 100\<rparr>)"
  by (simp add: io_poll_dispatch_def)

lemma io_poll_dispatch_timeout:
  "io_poll_dispatch cfg (ev\<lparr>ev_poll := PollTimeout\<rparr>) st =
     (if fd (ev_pcm ev) = - 1 then D_Exit else D_Continue)
       (st\<lparr>drained_signals := drained_signals st + 1, poll_timeout := - 1\<rparr>)"
  by (simp add: io_poll_dispatch_def Let_def)

end
